theory Spec2Isabelle
  imports Complex_Main
begin

section \<open>Errors\<close>

text \<open>
  Every exception the modelled code can raise is a value. \<open>RuntimeError\<close> and
  \<open>AssertionError\<close> are raised by the sources themselves; \<open>KeyError\<close> and
  \<open>IndexError\<close> by dictionary and list subscripts; \<open>AttributeError\<close> by reading an
  attribute an object does not have; \<open>BackendError\<close> stands for an exception raised
  inside the tensor or graph library (storing \<open>None\<close> as edge data, unpacking a tensor
  where a pair is expected).
\<close>

datatype error =
  RuntimeError | AssertionError | KeyError | IndexError | AttributeError | BackendError

section \<open>Tensors under exact arithmetic\<close>

text \<open>
  A feature tensor of shape \<open>(N, D)\<close> is a list of \<open>N\<close> rows of \<open>D\<close> reals; a weight
  matrix of shape \<open>(D, M)\<close> is a list of \<open>D\<close> rows of \<open>M\<close> reals; a per-edge weight is
  one real per edge id. Floating point is replaced by real arithmetic.
\<close>

type_synonym vec = "real list"
type_synonym tensor = "vec list"

definition zeros :: "nat \<Rightarrow> vec" where
  "zeros d = replicate d 0"

definition vadd :: "vec \<Rightarrow> vec \<Rightarrow> vec" where
  "vadd a b = map2 (+) a b"

definition vsub :: "vec \<Rightarrow> vec \<Rightarrow> vec" where
  "vsub a b = map2 (-) a b"

definition vmul :: "vec \<Rightarrow> vec \<Rightarrow> vec" where
  "vmul a b = map2 (*) a b"

definition vscale :: "vec \<Rightarrow> real \<Rightarrow> vec" where
  "vscale a c = map (\<lambda>x. x * c) a"

definition vsum :: "nat \<Rightarrow> vec list \<Rightarrow> vec" where
  "vsum d ms = foldr vadd ms (zeros d)"

definition width :: "tensor \<Rightarrow> nat" where
  "width t = (case t of [] \<Rightarrow> 0 | r # _ \<Rightarrow> length r)"

definition dot :: "vec \<Rightarrow> vec \<Rightarrow> real" where
  "dot a b = sum_list (map2 (*) a b)"

definition column :: "tensor \<Rightarrow> nat \<Rightarrow> vec" where
  "column W k = map (\<lambda>r. r ! k) W"

definition vecmat :: "vec \<Rightarrow> tensor \<Rightarrow> vec" where
  "vecmat a W = map (\<lambda>k. dot a (column W k)) [0..<width W]"

text \<open>\<open>torch.matmul(feat, weight)\<close>: every row of \<open>feat\<close> times the matrix.\<close>

definition matmul :: "tensor \<Rightarrow> tensor \<Rightarrow> tensor" where
  "matmul A W = map (\<lambda>a. vecmat a W) A"

text \<open>\<open>feat * norm\<close> with \<open>norm\<close> reshaped to \<open>(N, 1)\<close>: row \<open>v\<close> is scaled by \<open>norm[v]\<close>.\<close>

definition scale_rows :: "tensor \<Rightarrow> real list \<Rightarrow> tensor" where
  "scale_rows t c = map2 vscale t c"

text \<open>\<open>rst + bias\<close>: the bias vector is added to every row.\<close>

definition add_bias :: "tensor \<Rightarrow> vec \<Rightarrow> tensor" where
  "add_bias t b = map (\<lambda>r. vadd r b) t"

text \<open>\<open>.float().clamp(min=1)\<close> on a tensor of degrees.\<close>

definition clamp_min :: "nat list \<Rightarrow> real \<Rightarrow> real list" where
  "clamp_min degs m = map (\<lambda>d. max (real d) m) degs"

section \<open>The graph backend\<close>

text \<open>
  A DGL graph is its number of nodes and its edge list; the edge id is the position in
  the list, and an edge \<open>(u, v)\<close> goes from source \<open>u\<close> to destination \<open>v\<close>.
\<close>

record dgl_graph =
  num_nodes :: nat
  edges :: "(nat \<times> nat) list"

definition out_degrees :: "dgl_graph \<Rightarrow> nat list" where
  "out_degrees g = map (\<lambda>n. length (filter (\<lambda>(u, v). u = n) (edges g))) [0..<num_nodes g]"

definition in_degrees :: "dgl_graph \<Rightarrow> nat list" where
  "in_degrees g = map (\<lambda>n. length (filter (\<lambda>(u, v). v = n) (edges g))) [0..<num_nodes g]"

text \<open>\<open>graph.reverse()\<close>: the same nodes and edge ids, every edge turned round.\<close>

definition reverse :: "dgl_graph \<Rightarrow> dgl_graph" where
  "reverse g = g\<lparr>edges := map (\<lambda>(u, v). (v, u)) (edges g)\<rparr>"

text \<open>The edges arriving at node \<open>n\<close>, each as (edge id, source).\<close>

definition incoming :: "dgl_graph \<Rightarrow> nat \<Rightarrow> (nat \<times> nat) list" where
  "incoming g n =
     map (\<lambda>(i, (u, v)). (i, u)) (filter (\<lambda>(i, (u, v)). v = n) (enumerate 0 (edges g)))"

text \<open>
  \<open>graph.update_all(fn.copy_src('h', 'm'), fn.sum('m', 'h'))\<close>: every node sums the
  source features of its incoming edges; a node without incoming edges gets zeros of
  the feature's width.
\<close>

definition update_all_copy_src :: "dgl_graph \<Rightarrow> tensor \<Rightarrow> tensor" where
  "update_all_copy_src g h =
     map (\<lambda>n. vsum (width h) (map (\<lambda>(i, u). h ! u) (incoming g n))) [0..<num_nodes g]"

text \<open>
  \<open>graph.update_all(fn.u_mul_e('h', w, 'm'), fn.sum('m', 'h'))\<close>: the message on edge
  \<open>i\<close> is the source feature times the edge feature \<open>w[i]\<close>.
\<close>

definition update_all_u_mul_e :: "dgl_graph \<Rightarrow> tensor \<Rightarrow> real list \<Rightarrow> tensor" where
  "update_all_u_mul_e g h w =
     map (\<lambda>n. vsum (width h) (map (\<lambda>(i, u). vscale (h ! u) (w ! i)) (incoming g n)))
       [0..<num_nodes g]"

section \<open>The undirected graph-convolution layer\<close>

text \<open>
  The fields every convolution variant stores. \<open>norm_mode\<close> is the source's \<open>_norm\<close>;
  \<open>in_feats\<close> and \<open>out_feats\<close> are read by \<open>forward\<close> only to choose the order of
  aggregation and weight multiplication.
\<close>

record conv_base =
  in_feats :: nat
  out_feats :: nat
  norm_mode :: string
  allow_zero_in_degree :: bool
  activation :: "(tensor \<Rightarrow> tensor) option"

record undirected_layer = conv_base +
  weight :: "tensor option"
  bias :: "vec option"

text \<open>
  \<open>UndirectedGCNLayerConv.__init__\<close>. The weight is filled by a random initialiser;
  the value it draws is the argument \<open>xavier\<close>. The bias starts at zero.
\<close>

definition UndirectedGCNLayerConv_init ::
  "nat \<Rightarrow> nat \<Rightarrow> string \<Rightarrow> bool \<Rightarrow> bool \<Rightarrow> (tensor \<Rightarrow> tensor) option \<Rightarrow> bool \<Rightarrow> tensor
     \<Rightarrow> error + undirected_layer" where
  "UndirectedGCNLayerConv_init n_in n_out nrm w b act azd xavier =
     (if nrm \<notin> {''none'', ''both'', ''right''} then Inl RuntimeError
      else Inr \<lparr>in_feats = n_in, out_feats = n_out, norm_mode = nrm,
                allow_zero_in_degree = azd, activation = act,
                weight = (if w then Some xavier else None),
                bias = (if b then Some (zeros n_out) else None)\<rparr>)"

definition UndirectedGCNLayerConv_forward ::
  "undirected_layer \<Rightarrow> dgl_graph \<Rightarrow> tensor \<Rightarrow> tensor option \<Rightarrow> real list option
     \<Rightarrow> real list option \<Rightarrow> error + tensor" where
  "UndirectedGCNLayerConv_forward self graph feat0 weight0 edge_weight reverse_edge_weight =
     (if reverse_edge_weight \<noteq> None then Inl AssertionError
      else
        let feat = (if norm_mode self = ''both''
                    then scale_rows feat0
                           (map (\<lambda>d. d powr (- 0.5)) (clamp_min (out_degrees graph) 1))
                    else feat0)
        in
        if weight0 \<noteq> None \<and> weight self \<noteq> None then Inl RuntimeError
        else
          let w = (if weight0 \<noteq> None then weight0 else weight self);
              rst =
                (if in_feats self > out_feats self then
                   let feat = (case w of None \<Rightarrow> feat | Some wt \<Rightarrow> matmul feat wt)
                   in (case edge_weight of
                         None \<Rightarrow> update_all_copy_src graph feat
                       | Some ew \<Rightarrow> update_all_u_mul_e graph feat ew)
                 else
                   let rst = (case edge_weight of
                                None \<Rightarrow> update_all_copy_src graph feat
                              | Some ew \<Rightarrow> update_all_u_mul_e graph feat ew)
                   in (case w of None \<Rightarrow> rst | Some wt \<Rightarrow> matmul rst wt));
              rst = (if norm_mode self \<noteq> ''none'' then
                       let degs = clamp_min (in_degrees graph) 1;
                           norm = (if norm_mode self = ''both''
                                   then map (\<lambda>d. d powr (- 0.5)) degs
                                   else map (\<lambda>d. 1 / d) degs)
                       in scale_rows rst norm
                     else rst);
              rst = (case bias self of None \<Rightarrow> rst | Some b \<Rightarrow> add_bias rst b);
              rst = (case activation self of None \<Rightarrow> rst | Some act \<Rightarrow> act rst)
          in Inr rst)"

section \<open>The bidirectional layers\<close>

text \<open>
  \<open>BiSepGCNLayerConv\<close> and \<open>BiFuseGCNLayerConv\<close> each hold a forward and a backward
  weight and bias. Their \<open>weight\<close> argument is \<open>None\<close>, one tensor used for both
  directions, or a tuple.
\<close>

record bisep_layer = conv_base +
  weight_fw :: "tensor option"
  weight_bw :: "tensor option"
  bias_fw :: "vec option"
  bias_bw :: "vec option"

record bifuse_layer = bisep_layer +
  fuse_linear_weight :: tensor
  fuse_linear_bias :: vec

datatype ext_weight = NoWeight | OneWeight tensor | TwoWeights "tensor option" "tensor option"

definition weight_pair :: "ext_weight \<Rightarrow> tensor option \<times> tensor option" where
  "weight_pair w = (case w of
       TwoWeights a b \<Rightarrow> (a, b)
     | OneWeight t \<Rightarrow> (Some t, Some t)
     | NoWeight \<Rightarrow> (None, None))"

text \<open>
  \<open>graph.edata[k] = data\<close> followed by \<open>update_all(fn.u_mul_e('h', k, 'm'), fn.sum('m', 'h'))\<close>
  where \<open>data\<close> may be \<open>None\<close>: the graph library accepts tensors only.
\<close>

definition set_edata_u_mul_e :: "dgl_graph \<Rightarrow> tensor \<Rightarrow> real list option \<Rightarrow> error + tensor" where
  "set_edata_u_mul_e g h data =
     (case data of None \<Rightarrow> Inl BackendError | Some w \<Rightarrow> Inr (update_all_u_mul_e g h w))"

definition BiSepGCNLayerConv_init ::
  "nat \<Rightarrow> nat \<Rightarrow> string \<Rightarrow> bool \<Rightarrow> bool \<Rightarrow> (tensor \<Rightarrow> tensor) option \<Rightarrow> bool \<Rightarrow> tensor
     \<Rightarrow> tensor \<Rightarrow> error + bisep_layer" where
  "BiSepGCNLayerConv_init n_in n_out nrm w b act azd xavier_fw xavier_bw =
     (if nrm \<notin> {''none'', ''both'', ''right''} then Inl RuntimeError
      else Inr \<lparr>in_feats = n_in, out_feats = n_out, norm_mode = nrm,
                allow_zero_in_degree = azd, activation = act,
                weight_fw = (if w then Some xavier_fw else None),
                weight_bw = (if w then Some xavier_bw else None),
                bias_fw = (if b then Some (zeros n_out) else None),
                bias_bw = (if b then Some (zeros n_out) else None)\<rparr>)"

text \<open>The block under \<open># forward direction\<close> of \<open>BiSepGCNLayerConv.forward\<close>.\<close>

definition BiSep_forward_direction ::
  "'a bisep_layer_scheme \<Rightarrow> dgl_graph \<Rightarrow> tensor \<Rightarrow> tensor option \<Rightarrow> real list option
     \<Rightarrow> error + tensor" where
  "BiSep_forward_direction self graph feat_fw0 weight_fw0 edge_weight =
     (let feat_fw = (if norm_mode self = ''both''
                     then scale_rows feat_fw0
                            (map (\<lambda>d. d powr (- 0.5)) (clamp_min (out_degrees graph) 1))
                     else feat_fw0)
      in
      if weight_fw0 \<noteq> None \<and> weight_fw self \<noteq> None then Inl RuntimeError
      else
        let w = (if weight_fw0 \<noteq> None then weight_fw0 else weight_fw self);
            rst_fw =
              (if in_feats self > out_feats self then
                 let feat_fw = (case w of None \<Rightarrow> feat_fw | Some wt \<Rightarrow> matmul feat_fw wt)
                 in (case edge_weight of
                       None \<Rightarrow> update_all_copy_src graph feat_fw
                     | Some ew \<Rightarrow> update_all_u_mul_e graph feat_fw ew)
               else
                 let rst_fw = (case edge_weight of
                                 None \<Rightarrow> update_all_copy_src graph feat_fw
                               | Some ew \<Rightarrow> update_all_u_mul_e graph feat_fw ew)
                 in (case w of None \<Rightarrow> rst_fw | Some wt \<Rightarrow> matmul rst_fw wt));
            rst_fw = (if norm_mode self \<noteq> ''none'' then
                        let degs = clamp_min (in_degrees graph) 1;
                            norm = (if norm_mode self = ''both''
                                    then map (\<lambda>d. d powr (- 0.5)) degs
                                    else map (\<lambda>d. 1 / d) degs)
                        in scale_rows rst_fw norm
                      else rst_fw);
            rst_fw = (case bias_fw self of None \<Rightarrow> rst_fw | Some b \<Rightarrow> add_bias rst_fw b);
            rst_fw = (case activation self of None \<Rightarrow> rst_fw | Some act \<Rightarrow> act rst_fw)
        in Inr rst_fw)"

text \<open>
  The block under \<open># backward direction\<close> of \<open>BiSepGCNLayerConv.forward\<close>; \<open>graph\<close> is
  the reversed graph. In the aggregate-first branch the source stores \<open>edge_weight\<close>
  under the key \<open>'reverse_edge_weight'\<close>.
\<close>

definition BiSep_backward_direction ::
  "'a bisep_layer_scheme \<Rightarrow> dgl_graph \<Rightarrow> tensor \<Rightarrow> tensor option \<Rightarrow> real list option
     \<Rightarrow> real list option \<Rightarrow> error + tensor" where
  "BiSep_backward_direction self graph feat_bw0 weight_bw0 edge_weight reverse_edge_weight =
     (let feat_bw = (if norm_mode self = ''both''
                     then scale_rows feat_bw0
                            (map (\<lambda>d. d powr (- 0.5)) (clamp_min (out_degrees graph) 1))
                     else feat_bw0)
      in
      if weight_bw0 \<noteq> None \<and> weight_bw self \<noteq> None then Inl RuntimeError
      else
        let w = (if weight_bw0 \<noteq> None then weight_bw0 else weight_bw self) in
        (case
           (if in_feats self > out_feats self then
              let feat_bw = (case w of None \<Rightarrow> feat_bw | Some wt \<Rightarrow> matmul feat_bw wt)
              in (case reverse_edge_weight of
                    None \<Rightarrow> Inr (update_all_copy_src graph feat_bw)
                  | Some rw \<Rightarrow> Inr (update_all_u_mul_e graph feat_bw rw))
            else
              (case (if reverse_edge_weight = None
                     then Inr (update_all_copy_src graph feat_bw)
                     else set_edata_u_mul_e graph feat_bw edge_weight) of
                 Inl e \<Rightarrow> Inl e
               | Inr rst_bw \<Rightarrow> Inr (case w of None \<Rightarrow> rst_bw | Some wt \<Rightarrow> matmul rst_bw wt)))
         of
           Inl e \<Rightarrow> Inl e
         | Inr rst_bw \<Rightarrow>
             let rst_bw = (if norm_mode self \<noteq> ''none'' then
                             let degs = clamp_min (in_degrees graph) 1;
                                 norm = (if norm_mode self = ''both''
                                         then map (\<lambda>d. d powr (- 0.5)) degs
                                         else map (\<lambda>d. 1 / d) degs)
                             in scale_rows rst_bw norm
                           else rst_bw);
                 rst_bw = (case bias_bw self of None \<Rightarrow> rst_bw | Some b \<Rightarrow> add_bias rst_bw b);
                 rst_bw = (case activation self of None \<Rightarrow> rst_bw | Some act \<Rightarrow> act rst_bw)
             in Inr rst_bw))"

definition BiSepGCNLayerConv_forward ::
  "bisep_layer \<Rightarrow> dgl_graph \<Rightarrow> tensor \<times> tensor \<Rightarrow> ext_weight \<Rightarrow> real list option
     \<Rightarrow> real list option \<Rightarrow> error + tensor \<times> tensor" where
  "BiSepGCNLayerConv_forward self graph feat weight0 edge_weight reverse_edge_weight =
     (let (feat_fw, feat_bw) = feat;
          (weight_fw0, weight_bw0) = weight_pair weight0
      in
      case BiSep_forward_direction self graph feat_fw weight_fw0 edge_weight of
        Inl e \<Rightarrow> Inl e
      | Inr rst_fw \<Rightarrow>
          (case BiSep_backward_direction self (reverse graph) feat_bw weight_bw0
                  edge_weight reverse_edge_weight of
             Inl e \<Rightarrow> Inl e
           | Inr rst_bw \<Rightarrow> Inr (rst_fw, rst_bw)))"

definition BiFuseGCNLayerConv_init ::
  "nat \<Rightarrow> nat \<Rightarrow> string \<Rightarrow> bool \<Rightarrow> bool \<Rightarrow> (tensor \<Rightarrow> tensor) option \<Rightarrow> bool \<Rightarrow> tensor
     \<Rightarrow> tensor \<Rightarrow> tensor \<Rightarrow> vec \<Rightarrow> error + bifuse_layer" where
  "BiFuseGCNLayerConv_init n_in n_out nrm w b act azd xavier_fw xavier_bw lin_w lin_b =
     (if nrm \<notin> {''none'', ''both'', ''right''} then Inl RuntimeError
      else Inr \<lparr>in_feats = n_in, out_feats = n_out, norm_mode = nrm,
                allow_zero_in_degree = azd, activation = act,
                weight_fw = (if w then Some xavier_fw else None),
                weight_bw = (if w then Some xavier_bw else None),
                bias_fw = (if b then Some (zeros n_out) else None),
                bias_bw = (if b then Some (zeros n_out) else None),
                fuse_linear_weight = lin_w, fuse_linear_bias = lin_b\<rparr>)"

text \<open>The block under \<open># forward direction\<close> of \<open>BiFuseGCNLayerConv.forward\<close>.\<close>

definition BiFuse_forward_direction ::
  "bifuse_layer \<Rightarrow> dgl_graph \<Rightarrow> tensor \<Rightarrow> tensor option \<Rightarrow> real list option
     \<Rightarrow> error + tensor" where
  "BiFuse_forward_direction self graph feat_fw0 weight_fw0 edge_weight =
     (let feat_fw = (if norm_mode self = ''both''
                     then scale_rows feat_fw0
                            (map (\<lambda>d. d powr (- 0.5)) (clamp_min (out_degrees graph) 1))
                     else feat_fw0)
      in
      if weight_fw0 \<noteq> None \<and> weight_fw self \<noteq> None then Inl RuntimeError
      else
        let w = (if weight_fw0 \<noteq> None then weight_fw0 else weight_fw self);
            rst_fw =
              (if in_feats self > out_feats self then
                 let feat_fw = (case w of None \<Rightarrow> feat_fw | Some wt \<Rightarrow> matmul feat_fw wt)
                 in (case edge_weight of
                       None \<Rightarrow> update_all_copy_src graph feat_fw
                     | Some ew \<Rightarrow> update_all_u_mul_e graph feat_fw ew)
               else
                 let rst_fw = (case edge_weight of
                                 None \<Rightarrow> update_all_copy_src graph feat_fw
                               | Some ew \<Rightarrow> update_all_u_mul_e graph feat_fw ew)
                 in (case w of None \<Rightarrow> rst_fw | Some wt \<Rightarrow> matmul rst_fw wt));
            rst_fw = (if norm_mode self \<noteq> ''none'' then
                        let degs = clamp_min (in_degrees graph) 1;
                            norm = (if norm_mode self = ''both''
                                    then map (\<lambda>d. d powr (- 0.5)) degs
                                    else map (\<lambda>d. 1 / d) degs)
                        in scale_rows rst_fw norm
                      else rst_fw);
            rst_fw = (case bias_fw self of None \<Rightarrow> rst_fw | Some b \<Rightarrow> add_bias rst_fw b);
            rst_fw = (case activation self of None \<Rightarrow> rst_fw | Some act \<Rightarrow> act rst_fw)
        in Inr rst_fw)"

text \<open>
  The block under \<open># backward direction\<close> of \<open>BiFuseGCNLayerConv.forward\<close>; \<open>graph\<close> is
  the reversed graph. In the aggregate-first branch the source tests \<open>edge_weight\<close> and
  then stores \<open>reverse_edge_weight\<close>.
\<close>

definition BiFuse_backward_direction ::
  "bifuse_layer \<Rightarrow> dgl_graph \<Rightarrow> tensor \<Rightarrow> tensor option \<Rightarrow> real list option
     \<Rightarrow> real list option \<Rightarrow> error + tensor" where
  "BiFuse_backward_direction self graph feat_bw0 weight_bw0 edge_weight reverse_edge_weight =
     (let feat_bw = (if norm_mode self = ''both''
                     then scale_rows feat_bw0
                            (map (\<lambda>d. d powr (- 0.5)) (clamp_min (out_degrees graph) 1))
                     else feat_bw0)
      in
      if weight_bw0 \<noteq> None \<and> weight_bw self \<noteq> None then Inl RuntimeError
      else
        let w = (if weight_bw0 \<noteq> None then weight_bw0 else weight_bw self) in
        (case
           (if in_feats self > out_feats self then
              let feat_bw = (case w of None \<Rightarrow> feat_bw | Some wt \<Rightarrow> matmul feat_bw wt)
              in (case reverse_edge_weight of
                    None \<Rightarrow> Inr (update_all_copy_src graph feat_bw)
                  | Some rw \<Rightarrow> Inr (update_all_u_mul_e graph feat_bw rw))
            else
              (case (if edge_weight = None
                     then Inr (update_all_copy_src graph feat_bw)
                     else set_edata_u_mul_e graph feat_bw reverse_edge_weight) of
                 Inl e \<Rightarrow> Inl e
               | Inr rst_bw \<Rightarrow> Inr (case w of None \<Rightarrow> rst_bw | Some wt \<Rightarrow> matmul rst_bw wt)))
         of
           Inl e \<Rightarrow> Inl e
         | Inr rst_bw \<Rightarrow>
             let rst_bw = (if norm_mode self \<noteq> ''none'' then
                             let degs = clamp_min (in_degrees graph) 1;
                                 norm = (if norm_mode self = ''both''
                                         then map (\<lambda>d. d powr (- 0.5)) degs
                                         else map (\<lambda>d. 1 / d) degs)
                             in scale_rows rst_bw norm
                           else rst_bw);
                 rst_bw = (case bias_bw self of None \<Rightarrow> rst_bw | Some b \<Rightarrow> add_bias rst_bw b);
                 rst_bw = (case activation self of None \<Rightarrow> rst_bw | Some act \<Rightarrow> act rst_bw)
             in Inr rst_bw))"

text \<open>
  The fusion at the end of \<open>BiFuseGCNLayerConv.forward\<close>. \<open>torch.cat(..., dim=-1)\<close>
  joins rows; \<open>nn.Linear\<close> with weight \<open>A\<close> of shape \<open>(out, 4 * out)\<close> and bias \<open>c\<close> maps
  a row \<open>x\<close> to \<open>x A\<^sup>T + c\<close>; the remaining operations are elementwise.
\<close>

definition sigmoid :: "real \<Rightarrow> real" where
  "sigmoid x = 1 / (1 + exp (- x))"

definition cat :: "tensor list \<Rightarrow> tensor" where
  "cat ts = foldr (map2 (@)) (butlast ts) (last ts)"

definition Linear :: "tensor \<Rightarrow> vec \<Rightarrow> tensor \<Rightarrow> tensor" where
  "Linear A c x = map (\<lambda>r. vadd (map (dot r) A) c) x"

definition tmul :: "tensor \<Rightarrow> tensor \<Rightarrow> tensor" where
  "tmul a b = map2 vmul a b"

definition tsub :: "tensor \<Rightarrow> tensor \<Rightarrow> tensor" where
  "tsub a b = map2 vsub a b"

definition tadd :: "tensor \<Rightarrow> tensor \<Rightarrow> tensor" where
  "tadd a b = map2 vadd a b"

definition BiFuseGCNLayerConv_forward ::
  "bifuse_layer \<Rightarrow> dgl_graph \<Rightarrow> tensor \<Rightarrow> ext_weight \<Rightarrow> real list option
     \<Rightarrow> real list option \<Rightarrow> error + tensor" where
  "BiFuseGCNLayerConv_forward self graph feat weight0 edge_weight reverse_edge_weight =
     (let (weight_fw0, weight_bw0) = weight_pair weight0
      in
      case BiFuse_forward_direction self graph feat weight_fw0 edge_weight of
        Inl e \<Rightarrow> Inl e
      | Inr rst_fw \<Rightarrow>
          (case BiFuse_backward_direction self (reverse graph) feat weight_bw0
                  edge_weight reverse_edge_weight of
             Inl e \<Rightarrow> Inl e
           | Inr rst_bw \<Rightarrow>
               let fuse_vector = cat [rst_fw, rst_bw, tmul rst_fw rst_bw, tsub rst_fw rst_bw];
                   fuse_gate_vector =
                     map (map sigmoid)
                       (Linear (fuse_linear_weight self) (fuse_linear_bias self) fuse_vector);
                   rst = tadd (tmul fuse_gate_vector rst_fw)
                              (tmul (map (map (\<lambda>g. 1 - g)) fuse_gate_vector) rst_bw)
               in Inr rst))"

section \<open>The layer wrapper and the multi-layer encoder\<close>

datatype conv_model =
    Undirected undirected_layer
  | BiSep bisep_layer
  | BiFuse bifuse_layer

text \<open>
  The values the random initialisers draw when one \<open>GCNLayer\<close> is constructed.
\<close>

record init_draws =
  xavier_w :: tensor
  xavier_w_fw :: tensor
  xavier_w_bw :: tensor
  linear_w :: tensor
  linear_b :: vec

definition GCNLayer_init ::
  "nat \<Rightarrow> nat \<Rightarrow> string \<Rightarrow> string \<Rightarrow> bool \<Rightarrow> bool \<Rightarrow> (tensor \<Rightarrow> tensor) option \<Rightarrow> bool
     \<Rightarrow> init_draws \<Rightarrow> error + conv_model" where
  "GCNLayer_init n_in n_out direction_option nrm w b act azd draws =
     (if direction_option = ''undirected'' then
        map_sum id Undirected
          (UndirectedGCNLayerConv_init n_in n_out nrm w b act azd (xavier_w draws))
      else if direction_option = ''bi_sep'' then
        map_sum id BiSep
          (BiSepGCNLayerConv_init n_in n_out nrm w b act azd
             (xavier_w_fw draws) (xavier_w_bw draws))
      else if direction_option = ''bi_fuse'' then
        map_sum id BiFuse
          (BiFuseGCNLayerConv_init n_in n_out nrm w b act azd
             (xavier_w_fw draws) (xavier_w_bw draws) (linear_w draws) (linear_b draws))
      else Inl RuntimeError)"

text \<open>
  A layer is fed one tensor, or a pair of tensors for \<open>bi_sep\<close>. \<open>GCN.forward\<close> pairs
  the shape with the direction option; a call with the other shape fails inside the
  libraries.
\<close>

datatype feats = Single tensor | Paired tensor tensor

definition GCNLayer_forward ::
  "conv_model \<Rightarrow> dgl_graph \<Rightarrow> feats \<Rightarrow> tensor option \<Rightarrow> real list option
     \<Rightarrow> real list option \<Rightarrow> error + feats" where
  "GCNLayer_forward model graph feat weight0 edge_weight reverse_edge_weight =
     (case (model, feat) of
        (Undirected m, Single f) \<Rightarrow>
          map_sum id Single
            (UndirectedGCNLayerConv_forward m graph f weight0 edge_weight reverse_edge_weight)
      | (BiSep m, Paired f_fw f_bw) \<Rightarrow>
          map_sum id (\<lambda>(a, b). Paired a b)
            (BiSepGCNLayerConv_forward m graph (f_fw, f_bw)
               (case weight0 of None \<Rightarrow> NoWeight | Some t \<Rightarrow> OneWeight t)
               edge_weight reverse_edge_weight)
      | (BiFuse m, Single f) \<Rightarrow>
          map_sum id Single
            (BiFuseGCNLayerConv_forward m graph f
               (case weight0 of None \<Rightarrow> NoWeight | Some t \<Rightarrow> OneWeight t)
               edge_weight reverse_edge_weight)
      | _ \<Rightarrow> Inl BackendError)"

text \<open>Python subscripts on a list: \<open>xs[i]\<close> for \<open>i \<ge> 0\<close> and \<open>xs[-1]\<close>.\<close>

definition py_nth :: "'a list \<Rightarrow> nat \<Rightarrow> error + 'a" where
  "py_nth xs i = (if i < length xs then Inr (xs ! i) else Inl IndexError)"

definition py_last :: "'a list \<Rightarrow> error + 'a" where
  "py_last xs = (if xs = [] then Inl IndexError else Inr (last xs))"

datatype hidden_size = HiddenInt nat | HiddenList "nat list"

record GCN =
  num_layers :: nat
  direction_option :: string
  gcn_layers :: "conv_model list"
  use_edge_weight :: bool

text \<open>
  The loop \<open>for l in range(1, self.num_layers - 1)\<close> of \<open>GCN.__init__\<close>; \<open>mk a b l\<close>
  constructs layer \<open>l\<close> with input size \<open>a\<close> and output size \<open>b\<close>.
\<close>

fun hidden_layers ::
  "nat list \<Rightarrow> (nat \<Rightarrow> nat \<Rightarrow> nat \<Rightarrow> error + conv_model) \<Rightarrow> nat list
     \<Rightarrow> error + conv_model list" where
  "hidden_layers hs mk [] = Inr []"
| "hidden_layers hs mk (l # ls) =
     (case py_nth hs (l - 1) of
        Inl e \<Rightarrow> Inl e
      | Inr a \<Rightarrow>
          (case py_nth hs l of
             Inl e \<Rightarrow> Inl e
           | Inr b \<Rightarrow>
               (case mk a b l of
                  Inl e \<Rightarrow> Inl e
                | Inr layer \<Rightarrow>
                    (case hidden_layers hs mk ls of
                       Inl e \<Rightarrow> Inl e
                     | Inr rest \<Rightarrow> Inr (layer # rest)))))"

definition GCN_init ::
  "nat \<Rightarrow> nat \<Rightarrow> hidden_size \<Rightarrow> nat \<Rightarrow> string \<Rightarrow> string \<Rightarrow> bool \<Rightarrow> bool
     \<Rightarrow> (tensor \<Rightarrow> tensor) option \<Rightarrow> bool \<Rightarrow> bool \<Rightarrow> (nat \<Rightarrow> init_draws) \<Rightarrow> error + GCN" where
  "GCN_init n_layers n_in hidden n_out direction nrm w b act azd uew draws =
     (if \<not> n_layers > 0 then Inl AssertionError
      else
        let hs = (case hidden of
                    HiddenInt h \<Rightarrow> replicate (n_layers - 1) h
                  | HiddenList l \<Rightarrow> l);
            mk = (\<lambda>a c l. GCNLayer_init a c direction nrm w b act azd (draws l))
        in
        case (if n_layers > 1
              then (case py_nth hs 0 of
                      Inl e \<Rightarrow> Inl e
                    | Inr h0 \<Rightarrow> map_sum id (\<lambda>layer. [layer]) (mk n_in h0 0))
              else Inr []) of
          Inl e \<Rightarrow> Inl e
        | Inr first \<Rightarrow>
            (case hidden_layers hs mk [1..<n_layers - 1] of
               Inl e \<Rightarrow> Inl e
             | Inr middle \<Rightarrow>
                 (case (if n_layers > 1 then py_last hs else Inr n_in) of
                    Inl e \<Rightarrow> Inl e
                  | Inr last_in \<Rightarrow>
                      (case mk last_in n_out (n_layers - 1) of
                         Inl e \<Rightarrow> Inl e
                       | Inr output \<Rightarrow>
                           Inr \<lparr>num_layers = n_layers, direction_option = direction,
                                gcn_layers = first @ middle @ [output],
                                use_edge_weight = uew\<rparr>))))"

text \<open>
  Modelled from the spec: the graph data container \<open>GraphData\<close> (imported from
  \<open>data.data\<close>, not among the sources) "holds node/edge features and topology" in
  "named feature slots" and "converts to an adjacency-based backend representation".
  A slot that is not there raises \<open>KeyError\<close>.
\<close>

record GraphData =
  node_features :: "string \<rightharpoonup> tensor"
  edge_features :: "string \<rightharpoonup> real list"
  topology :: dgl_graph

definition to_dgl :: "GraphData \<Rightarrow> dgl_graph" where
  "to_dgl graph = topology graph"

text \<open>\<open>t.flatten(1)\<close> merges the dimensions after the first; on a tensor \<open>(N, D)\<close> nothing changes.\<close>

definition flatten1 :: "tensor \<Rightarrow> tensor" where
  "flatten1 t = t"

text \<open>The loop \<open>for l in range(self.num_layers - 1)\<close> of \<open>GCN.forward\<close>.\<close>

fun layers_loop ::
  "GCN \<Rightarrow> dgl_graph \<Rightarrow> real list option \<Rightarrow> real list option \<Rightarrow> nat list \<Rightarrow> feats
     \<Rightarrow> error + feats" where
  "layers_loop self dgl_graph edge_weight reverse_edge_weight [] h = Inr h"
| "layers_loop self dgl_graph edge_weight reverse_edge_weight (l # ls) h =
     (case py_nth (gcn_layers self) l of
        Inl e \<Rightarrow> Inl e
      | Inr layer \<Rightarrow>
          (case GCNLayer_forward layer dgl_graph h None edge_weight reverse_edge_weight of
             Inl e \<Rightarrow> Inl e
           | Inr h1 \<Rightarrow>
               (case (if direction_option self = ''bi_sep''
                      then (case h1 of
                              Paired a c \<Rightarrow> Inr (Paired (flatten1 a) (flatten1 c))
                            | Single a \<Rightarrow> Inl BackendError)
                      else (case h1 of
                              Single a \<Rightarrow> Inr (Single (flatten1 a))
                            | Paired a c \<Rightarrow> Inl BackendError)) of
                  Inl e \<Rightarrow> Inl e
                | Inr h2 \<Rightarrow>
                    layers_loop self dgl_graph edge_weight reverse_edge_weight ls h2)))"

definition GCN_forward :: "GCN \<Rightarrow> GraphData \<Rightarrow> error + GraphData" where
  "GCN_forward self graph =
     (case node_features graph ''node_feat'' of
        None \<Rightarrow> Inl KeyError
      | Some feat \<Rightarrow>
         (let dgl_graph = to_dgl graph;
              h = (if direction_option self = ''bi_sep'' then Paired feat feat else Single feat)
          in
          (case (if use_edge_weight self then
                  (case edge_features graph ''edge_weight'' of
                     None \<Rightarrow> Inl KeyError
                   | Some ew \<Rightarrow>
                       if direction_option self \<noteq> ''undirected'' then
                         (case edge_features graph ''reverse_edge_weight'' of
                            None \<Rightarrow> Inl KeyError
                          | Some rw \<Rightarrow> Inr (Some ew, Some rw))
                       else Inr (Some ew, None))
                else Inr (None, None)) of
            Inl e \<Rightarrow> Inl e
          | Inr (edge_weight, reverse_edge_weight) \<Rightarrow>
              (case layers_loop self dgl_graph edge_weight reverse_edge_weight
                      [0..<num_layers self - 1] h of
                 Inl e \<Rightarrow> Inl e
               | Inr h1 \<Rightarrow>
                   (case py_last (gcn_layers self) of
                      Inl e \<Rightarrow> Inl e
                    | Inr output \<Rightarrow>
                        (case GCNLayer_forward output dgl_graph h1 None None None of
                           Inl e \<Rightarrow> Inl e
                         | Inr logits \<Rightarrow>
                             (case (if direction_option self = ''bi_sep''
                                    then (case logits of
                                            Paired a c \<Rightarrow> Inr (cat [a, c])
                                          | Single a \<Rightarrow> Inl BackendError)
                                    else (case logits of
                                            Single a \<Rightarrow> Inr a
                                          | Paired a c \<Rightarrow> Inl BackendError)) of
                                Inl e \<Rightarrow> Inl e
                              | Inr emb \<Rightarrow>
                                  Inr (node_features_update
                                         (\<lambda>nf. nf(''node_emb'' \<mapsto> emb)) graph))))))))"

section \<open>Vocabularies in a store\<close>

text \<open>
  Vocabularies are shared, mutable objects, so they live in a store: a list of objects,
  the address of an object being its position, and allocation appending at the end.

  Modelled from the spec: the vocabulary class (imported by the dataset, not among the
  sources) is a "bidirectional mapping between symbol (string token) and integer index"
  that "contains a reserved unknown-token index". A vocabulary object refers to its
  symbol-to-index dictionary and to its index-to-symbol list, and holds the unknown
  token and its index. \<open>get_symbol_idx\<close> "returns unknown-index if absent";
  \<open>add_symbol\<close> "appends a new entry, assigning the next integer index; idempotent if
  the token is already present - returns its existing index".
\<close>

type_synonym addr = nat

datatype obj =
    DictObj "(string \<times> nat) list"
  | ListObj "string list"
  | VocabObj addr addr string nat

type_synonym store = "obj list"

definition deref :: "store \<Rightarrow> addr \<Rightarrow> obj option" where
  "deref s a = (if a < length s then Some (s ! a) else None)"

definition get_symbol_idx :: "store \<Rightarrow> addr \<Rightarrow> string \<Rightarrow> error + nat" where
  "get_symbol_idx s v tok =
     (case deref s v of
        Some (VocabObj d l unk_tok unk_idx) \<Rightarrow>
          (case deref s d of
             Some (DictObj m) \<Rightarrow> Inr (case map_of m tok of Some i \<Rightarrow> i | None \<Rightarrow> unk_idx)
           | _ \<Rightarrow> Inl BackendError)
      | _ \<Rightarrow> Inl BackendError)"

definition add_symbol :: "store \<Rightarrow> addr \<Rightarrow> string \<Rightarrow> error + nat \<times> store" where
  "add_symbol s v tok =
     (case deref s v of
        Some (VocabObj d l unk_tok unk_idx) \<Rightarrow>
          (case (deref s d, deref s l) of
             (Some (DictObj m), Some (ListObj xs)) \<Rightarrow>
               (case map_of m tok of
                  Some i \<Rightarrow> Inr (i, s)
                | None \<Rightarrow>
                    Inr (length xs,
                         s[d := DictObj (m @ [(tok, length xs)]), l := ListObj (xs @ [tok])]))
           | _ \<Rightarrow> Inl BackendError)
      | _ \<Rightarrow> Inl BackendError)"

definition unk_token :: "store \<Rightarrow> addr \<Rightarrow> error + string" where
  "unk_token s v =
     (case deref s v of
        Some (VocabObj d l unk_tok unk_idx) \<Rightarrow> Inr unk_tok
      | _ \<Rightarrow> Inl BackendError)"

text \<open>
  \<open>copy.deepcopy\<close> of a vocabulary: a new dictionary and a new list with the contents of
  the old ones, and a new vocabulary object that refers to them.
\<close>

definition deepcopy :: "store \<Rightarrow> addr \<Rightarrow> error + addr \<times> store" where
  "deepcopy s v =
     (case deref s v of
        Some (VocabObj d l unk_tok unk_idx) \<Rightarrow>
          (case (deref s d, deref s l) of
             (Some (DictObj m), Some (ListObj xs)) \<Rightarrow>
               Inr (length s + 2,
                    s @ [DictObj m, ListObj xs,
                         VocabObj (length s) (length s + 1) unk_tok unk_idx])
           | _ \<Rightarrow> Inl BackendError)
      | _ \<Rightarrow> Inl BackendError)"

text \<open>
  An entry of \<open>batch_graph.node_attributes\<close>: the token and \<open>n.get('type')\<close>, which is
  \<open>None\<close> when the key is missing.
\<close>

record node_attr =
  token :: string
  node_type :: "int option"

text \<open>
  The loop of \<open>Jobs.prepare_ext_vocab\<close> over the node attributes; \<open>token_matrix\<close> is
  the list built so far.
\<close>

fun ext_vocab_loop ::
  "store \<Rightarrow> addr \<Rightarrow> node_attr list \<Rightarrow> nat list \<Rightarrow> error + nat list \<times> store" where
  "ext_vocab_loop s oov_dict [] token_matrix = Inr (token_matrix, s)"
| "ext_vocab_loop s oov_dict (n # ns) token_matrix =
     (let node_token = token n in
      case (if node_type n = None \<or> node_type n = Some 0 then
              (case get_symbol_idx s oov_dict node_token of
                 Inl e \<Rightarrow> Inl e
               | Inr i \<Rightarrow>
                   (case unk_token s oov_dict of
                      Inl e \<Rightarrow> Inl e
                    | Inr u \<Rightarrow>
                        (case get_symbol_idx s oov_dict u of
                           Inl e \<Rightarrow> Inl e
                         | Inr j \<Rightarrow>
                             if i = j
                             then map_sum id snd (add_symbol s oov_dict node_token)
                             else Inr s)))
            else Inr s) of
        Inl e \<Rightarrow> Inl e
      | Inr s1 \<Rightarrow>
          (case get_symbol_idx s1 oov_dict node_token of
             Inl e \<Rightarrow> Inl e
           | Inr k \<Rightarrow> ext_vocab_loop s1 oov_dict ns (token_matrix @ [k])))"

text \<open>
  \<open>Jobs.prepare_ext_vocab\<close> (the same in both runners). The result is the address of
  the new vocabulary, the token ids stored in the batch graph under \<open>'token_id_oov'\<close>,
  and the store afterwards.
\<close>

definition prepare_ext_vocab ::
  "store \<Rightarrow> node_attr list \<Rightarrow> addr \<Rightarrow> error + addr \<times> nat list \<times> store" where
  "prepare_ext_vocab s node_attributes src_vocab =
     (case deepcopy s src_vocab of
        Inl e \<Rightarrow> Inl e
      | Inr (oov_dict, s1) \<Rightarrow>
          (case ext_vocab_loop s1 oov_dict node_attributes [] of
             Inl e \<Rightarrow> Inl e
           | Inr (token_matrix, s2) \<Rightarrow> Inr (oov_dict, token_matrix, s2)))"

section \<open>Bracket repair in the evaluator\<close>

text \<open>
  The repair of a decoded candidate in \<open>Jobs.eval\<close> (the same in both runners). The
  vocabulary class is not among the sources, so the table of the evaluation vocabulary
  is an argument: \<open>idx2symbol c\<close> is the value of \<open>eval_vocab.idx2symbol[int(c)]\<close>, which
  may raise.

  The closing bracket to append is read from \<open>self.test_data_loader.tgt_vocab\<close>.
  \<open>_build_dataloader\<close> builds \<open>self.test_data_loader\<close> as
  \<open>DataLoader(dataset.test, batch_size=1, shuffle=False, num_workers=..., collate_fn=...)\<close>
  and stores the target vocabulary in \<open>self.tgt_vocab\<close>. The loader holds what it was
  constructed with; nothing gives it an attribute \<open>tgt_vocab\<close>, so reading that
  attribute raises \<open>AttributeError\<close>, and the subscript \<open>symbol2idx[")"]\<close> behind it is
  never reached.
\<close>

record DataLoader =
  batch_size :: nat
  shuffle :: bool
  num_workers :: nat

text \<open>\<open>self.test_data_loader\<close> as \<open>_build_dataloader\<close> of \<open>runner.py\<close> builds it.\<close>

definition test_data_loader :: DataLoader where
  "test_data_loader = \<lparr>batch_size = 1, shuffle = False, num_workers = 0\<rparr>"

text \<open>\<open>loader.tgt_vocab\<close> on a data loader.\<close>

definition DataLoader_tgt_vocab :: "DataLoader \<Rightarrow> error + (string \<rightharpoonup> int)" where
  "DataLoader_tgt_vocab loader = Inl AttributeError"

text \<open>\<open>loader.tgt_vocab.symbol2idx[")"]\<close>.\<close>

definition rparen_lookup :: "DataLoader \<Rightarrow> error + int" where
  "rparen_lookup loader =
     (case DataLoader_tgt_vocab loader of
        Inl e \<Rightarrow> Inl e
      | Inr symbol2idx \<Rightarrow>
          (case symbol2idx '')'' of None \<Rightarrow> Inl KeyError | Some i \<Rightarrow> Inr i))"

fun count_symbol :: "(int \<Rightarrow> error + string) \<Rightarrow> string \<Rightarrow> int list \<Rightarrow> error + nat" where
  "count_symbol idx2symbol symb [] = Inr 0"
| "count_symbol idx2symbol symb (c # cs) =
     (case idx2symbol c of
        Inl e \<Rightarrow> Inl e
      | Inr t \<Rightarrow>
          (case count_symbol idx2symbol symb cs of
             Inl e \<Rightarrow> Inl e
           | Inr n \<Rightarrow> Inr ((if t = symb then 1 else 0) + n)))"

text \<open>
  \<open>for _ in range(diff): candidate.append(...)\<close>; \<open>rparen\<close> is the value of the
  expression that is appended, evaluated in every round.
\<close>

fun append_loop :: "nat \<Rightarrow> error + int \<Rightarrow> int list \<Rightarrow> error + int list" where
  "append_loop 0 rparen candidate = Inr candidate"
| "append_loop (Suc n) rparen candidate =
     (case rparen of
        Inl e \<Rightarrow> Inl e
      | Inr r \<Rightarrow> append_loop n rparen (candidate @ [r]))"

text \<open>Python's \<open>xs[:k]\<close>: a negative \<open>k\<close> counts from the end.\<close>

definition slice_to :: "'a list \<Rightarrow> int \<Rightarrow> 'a list" where
  "slice_to xs k = (if k < 0 then take (nat (int (length xs) + k)) xs else take (nat k) xs)"

definition eval_repair ::
  "(int \<Rightarrow> error + string) \<Rightarrow> DataLoader \<Rightarrow> int list \<Rightarrow> error + int list" where
  "eval_repair idx2symbol loader candidate =
     (case count_symbol idx2symbol ''('' candidate of
        Inl e \<Rightarrow> Inl e
      | Inr num_left_paren \<Rightarrow>
          (case count_symbol idx2symbol '')'' candidate of
             Inl e \<Rightarrow> Inl e
           | Inr num_right_paren \<Rightarrow>
               let diff = int num_left_paren - int num_right_paren in
               if diff > 0 then append_loop (nat diff) (rparen_lookup loader) candidate
               else if diff < 0 then Inr (slice_to candidate diff)
               else Inr candidate))"

section \<open>Well-formed inputs and example inputs\<close>

text \<open>
  The spec's invariant on graphs: "edge endpoints reference valid node indices". A
  tensor is rectangular when all its rows have one length.
\<close>

definition wf_graph :: "dgl_graph \<Rightarrow> bool" where
  "wf_graph g = (\<forall>(u, v) \<in> set (edges g). u < num_nodes g \<and> v < num_nodes g)"

definition rectangular :: "tensor \<Rightarrow> bool" where
  "rectangular t = (\<forall>r \<in> set t. length r = width t)"

text \<open>The path graph \<open>0 \<rightarrow> 1 \<rightarrow> 2\<close>.\<close>

definition path_graph :: dgl_graph where
  "path_graph = \<lparr>num_nodes = 3, edges = [(0, 1), (1, 2)]\<rparr>"

text \<open>
  An undirected layer of width 4 with the identity as weight and a zero bias, without
  normalization or activation.
\<close>

definition identity4_layer :: undirected_layer where
  "identity4_layer =
     \<lparr>in_feats = 4, out_feats = 4, norm_mode = ''none'', allow_zero_in_degree = True,
      activation = None,
      weight = Some [[1, 0, 0, 0], [0, 1, 0, 0], [0, 0, 1, 0], [0, 0, 0, 1]],
      bias = Some [0, 0, 0, 0]\<rparr>"

text \<open>A bidirectional layer of width 1 that holds its own weights; its gate is constant.\<close>

definition weighted_bifuse :: bifuse_layer where
  "weighted_bifuse =
     \<lparr>in_feats = 1, out_feats = 1, norm_mode = ''none'', allow_zero_in_degree = True,
      activation = None, weight_fw = Some [[1]], weight_bw = Some [[1]],
      bias_fw = None, bias_bw = None,
      fuse_linear_weight = [[0, 0, 0, 0]], fuse_linear_bias = [0]\<rparr>"


text \<open>
  The number of tokens of a candidate that the evaluation vocabulary maps to a given
  symbol, and a small index-to-symbol table: 1 is the opening bracket, 2 the closing
  bracket, the other indices below 10 a word.
\<close>

definition paren_count :: "(int \<Rightarrow> error + string) \<Rightarrow> string \<Rightarrow> int list \<Rightarrow> nat" where
  "paren_count idx2symbol symb candidate =
     length (filter (\<lambda>c. idx2symbol c = Inr symb) candidate)"

definition example_idx2symbol :: "int \<Rightarrow> error + string" where
  "example_idx2symbol c =
     (if c = 1 then Inr ''(''
      else if c = 2 then Inr '')''
      else if 0 \<le> c \<and> c < 10 then Inr ''job''
      else Inl IndexError)"

text \<open>
  An encoder with a single \<open>bi_sep\<close> layer that reads edge weights, and the path graph
  as graph data with given edge weights.
\<close>

definition single_layer_encoder :: GCN where
  "single_layer_encoder =
     \<lparr>num_layers = 1, direction_option = ''bi_sep'',
      gcn_layers = [BiSep (bisep_layer.truncate weighted_bifuse)],
      use_edge_weight = True\<rparr>"

definition weighted_path :: "real list \<Rightarrow> real list \<Rightarrow> GraphData" where
  "weighted_path ew rw =
     \<lparr>node_features = [''node_feat'' \<mapsto> [[1], [2], [3]]],
      edge_features = [''edge_weight'' \<mapsto> ew, ''reverse_edge_weight'' \<mapsto> rw],
      topology = path_graph\<rparr>"

text \<open>
  A vocabulary address is well formed in a store when it holds a vocabulary object whose
  two references hold a dictionary and a list. \<open>vocab_contents\<close> reads the
  symbol-to-index and index-to-symbol mappings of a vocabulary through its references.
  \<open>add_symbols\<close> is a sequence of \<open>add_symbol\<close> calls on one vocabulary.
\<close>

definition wf_vocab :: "store \<Rightarrow> addr \<Rightarrow> bool" where
  "wf_vocab s v =
     (case deref s v of
        Some (VocabObj d l unk_tok unk_idx) \<Rightarrow>
          (case (deref s d, deref s l) of
             (Some (DictObj m), Some (ListObj xs)) \<Rightarrow> True
           | _ \<Rightarrow> False)
      | _ \<Rightarrow> False)"

definition vocab_contents :: "store \<Rightarrow> addr \<Rightarrow> ((string \<times> nat) list \<times> string list) option" where
  "vocab_contents s v =
     (case deref s v of
        Some (VocabObj d l unk_tok unk_idx) \<Rightarrow>
          (case (deref s d, deref s l) of
             (Some (DictObj m), Some (ListObj xs)) \<Rightarrow> Some (m, xs)
           | _ \<Rightarrow> None)
      | _ \<Rightarrow> None)"

fun add_symbols :: "store \<Rightarrow> addr \<Rightarrow> string list \<Rightarrow> error + store" where
  "add_symbols s v [] = Inr s"
| "add_symbols s v (tok # toks) =
     (case add_symbol s v tok of
        Inl e \<Rightarrow> Inl e
      | Inr (i, s1) \<Rightarrow> add_symbols s1 v toks)"

definition example_store :: store where
  "example_store =
     [DictObj [(''<unk>'', 0), (''city'', 1)], ListObj [''<unk>'', ''city''],
      VocabObj 0 1 ''<unk>'' 0]"

definition example_nodes :: "node_attr list" where
  "example_nodes =
     [\<lparr>token = ''city'', node_type = None\<rparr>,
      \<lparr>token = ''boston'', node_type = Some 0\<rparr>,
      \<lparr>token = ''edge'', node_type = Some 1\<rparr>]"

text \<open>
  The invariant of a copy: the vocabulary at \<open>v\<close> refers to a dictionary and a list that
  were allocated at or after address \<open>n\<close>, and they extend the contents \<open>m0\<close>, \<open>xs0\<close>.
\<close>

definition owns :: "nat \<Rightarrow> (string \<times> nat) list \<Rightarrow> string list \<Rightarrow> store \<Rightarrow> addr \<Rightarrow> bool" where
  "owns n m0 xs0 s v =
     (\<exists>d l t u m xs. v < length s \<and> s ! v = VocabObj d l t u \<and>
        n \<le> d \<and> d < length s \<and> n \<le> l \<and> l < length s \<and>
        s ! d = DictObj (m0 @ m) \<and> s ! l = ListObj (xs0 @ xs))"

text \<open>
  Following the spec's words for the bidirectional layers: \<open>bi_sep\<close> "must equal the pair
  (forward-only result, backward-only result) computed independently against the original
  graph and its edge-reversed counterpart", the forward result with \<open>edge_weight\<close> and the
  forward weight and bias, the backward result with \<open>reverse_edge_weight\<close> and the backward
  weight and bias; \<open>bi_fuse\<close> "must equal \<open>gate*fw + (1-gate)*bw\<close> where \<open>fw\<close>, \<open>bw\<close> are
  bi_sep's two outputs and \<open>gate = sigmoid(fuse_linear([fw,bw,fw*bw,fw-bw]))\<close>".
\<close>

definition forward_layer :: "'a bisep_layer_scheme \<Rightarrow> undirected_layer" where
  "forward_layer self =
     \<lparr>in_feats = in_feats self, out_feats = out_feats self, norm_mode = norm_mode self,
      allow_zero_in_degree = allow_zero_in_degree self, activation = activation self,
      weight = weight_fw self, bias = bias_fw self\<rparr>"

definition backward_layer :: "'a bisep_layer_scheme \<Rightarrow> undirected_layer" where
  "backward_layer self =
     \<lparr>in_feats = in_feats self, out_feats = out_feats self, norm_mode = norm_mode self,
      allow_zero_in_degree = allow_zero_in_degree self, activation = activation self,
      weight = weight_bw self, bias = bias_bw self\<rparr>"

definition bi_sep_spec ::
  "bisep_layer \<Rightarrow> dgl_graph \<Rightarrow> tensor \<times> tensor \<Rightarrow> real list option \<Rightarrow> real list option
     \<Rightarrow> error + tensor \<times> tensor" where
  "bi_sep_spec self graph feat edge_weight reverse_edge_weight =
     (case UndirectedGCNLayerConv_forward (forward_layer self) graph (fst feat) None
             edge_weight None of
        Inl e \<Rightarrow> Inl e
      | Inr fw \<Rightarrow>
          (case UndirectedGCNLayerConv_forward (backward_layer self) (reverse graph) (snd feat)
                  None reverse_edge_weight None of
             Inl e \<Rightarrow> Inl e
           | Inr bw \<Rightarrow> Inr (fw, bw)))"

definition fuse_spec :: "bifuse_layer \<Rightarrow> tensor \<Rightarrow> tensor \<Rightarrow> tensor" where
  "fuse_spec self fw bw =
     (let gate = map (map sigmoid)
                   (Linear (fuse_linear_weight self) (fuse_linear_bias self)
                      (cat [fw, bw, tmul fw bw, tsub fw bw]))
      in tadd (tmul gate fw) (tmul (map (map (\<lambda>g. 1 - g)) gate) bw))"

definition bi_fuse_spec ::
  "bifuse_layer \<Rightarrow> dgl_graph \<Rightarrow> tensor \<Rightarrow> real list option \<Rightarrow> real list option
     \<Rightarrow> error + tensor" where
  "bi_fuse_spec self graph feat edge_weight reverse_edge_weight =
     map_sum id (\<lambda>(fw, bw). fuse_spec self fw bw)
       (BiSepGCNLayerConv_forward (bisep_layer.truncate self) graph (feat, feat) NoWeight
          edge_weight reverse_edge_weight)"

text \<open>
  A graph with the single edge \<open>0 \<rightarrow> 1\<close>, and bidirectional layers of width 1 without
  weights, biases, normalization or activation; the gate of the fused layer is constant
  \<open>1/2\<close>. With equal sizes the layers take the aggregate-first branch.
\<close>

definition edge_graph :: dgl_graph where
  "edge_graph = \<lparr>num_nodes = 2, edges = [(0, 1)]\<rparr>"

definition plain_bifuse :: bifuse_layer where
  "plain_bifuse =
     \<lparr>in_feats = 1, out_feats = 1, norm_mode = ''none'', allow_zero_in_degree = True,
      activation = None, weight_fw = None, weight_bw = None,
      bias_fw = None, bias_bw = None,
      fuse_linear_weight = [[0, 0, 0, 0]], fuse_linear_bias = [0]\<rparr>"

definition plain_bisep :: bisep_layer where
  "plain_bisep = bisep_layer.truncate plain_bifuse"

section \<open>Linearity of the tensor operations\<close>

lemmas tensor_defs = zeros_def vadd_def vsub_def vmul_def vscale_def vsum_def width_def dot_def
  column_def vecmat_def matmul_def scale_rows_def add_bias_def clamp_min_def

lemmas graph_defs = out_degrees_def in_degrees_def reverse_def incoming_def
  update_all_copy_src_def update_all_u_mul_e_def

lemma upt_3: "[0..<3] = [0, 1, 2]"
  by (simp add: upt_rec)

lemma dot_vadd: "length a = length b \<Longrightarrow> dot (vadd a b) c = dot a c + dot b c"
proof (induction a b arbitrary: c rule: list_induct2)
  case Nil then show ?case by (simp add: dot_def vadd_def)
next
  case (Cons x xs y ys)
  show ?case
  proof (cases c)
    case Nil then show ?thesis by (simp add: dot_def vadd_def)
  next
    case (Cons z zs)
    with Cons.IH [of zs] show ?thesis by (simp add: dot_def vadd_def algebra_simps)
  qed
qed

lemma dot_zeros: "dot (zeros d) c = 0"
proof (induction d arbitrary: c)
  case 0 then show ?case by (simp add: dot_def zeros_def)
next
  case (Suc d)
  from Suc [of "tl c"] show ?case by (cases c) (simp_all add: dot_def zeros_def)
qed

lemma dot_vscale: "dot (vscale a x) c = dot a c * x"
proof (induction a arbitrary: c)
  case Nil then show ?case by (simp add: dot_def vscale_def)
next
  case (Cons y ys)
  from Cons [of "tl c"] show ?case by (cases c) (simp_all add: dot_def vscale_def algebra_simps)
qed

lemma map2_map_map: "map2 f (map g xs) (map h xs) = map (\<lambda>x. f (g x) (h x)) xs"
  by (induction xs) simp_all

lemma vecmat_vadd: "length a = length b \<Longrightarrow> vecmat (vadd a b) W = vadd (vecmat a W) (vecmat b W)"
  by (simp add: vecmat_def dot_vadd) (simp add: vadd_def map2_map_map)

lemma vecmat_zeros: "vecmat (zeros d) W = zeros (width W)"
  by (simp add: vecmat_def dot_zeros) (simp add: zeros_def map_replicate_const)

lemma vecmat_vscale: "vecmat (vscale a x) W = vscale (vecmat a W) x"
  by (simp add: vecmat_def dot_vscale) (simp add: vscale_def)

lemma length_vecmat: "length (vecmat a W) = width W"
  by (simp add: vecmat_def)

lemma length_vsum: "\<forall>m \<in> set ms. length m = d \<Longrightarrow> length (vsum d ms) = d"
  by (induction ms) (simp_all add: vsum_def zeros_def vadd_def)

lemma vecmat_vsum:
  "\<forall>m \<in> set ms. length m = d \<Longrightarrow> vecmat (vsum d ms) W = vsum (width W) (map (\<lambda>m. vecmat m W) ms)"
proof (induction ms)
  case Nil then show ?case by (simp add: vsum_def vecmat_zeros)
next
  case (Cons m ms)
  then have "length m = length (vsum d ms)" by (simp add: length_vsum)
  then have "vecmat (vadd m (vsum d ms)) W = vadd (vecmat m W) (vecmat (vsum d ms) W)"
    by (rule vecmat_vadd)
  with Cons show ?case by (simp add: vsum_def)
qed

lemma incoming_source:
  assumes "(i, u) \<in> set (incoming g n)"
  shows "\<exists>v. (u, v) \<in> set (edges g)"
proof -
  from assms obtain v where "(i, (u, v)) \<in> set (enumerate 0 (edges g))"
    by (auto simp: incoming_def)
  then have "(u, v) \<in> set (edges g)"
    by (auto simp: in_set_enumerate_eq dest: nth_mem)
  then show ?thesis ..
qed

lemma incoming_in_range:
  assumes "wf_graph g" and "(i, u) \<in> set (incoming g n)"
  shows "u < num_nodes g"
  using incoming_source [OF assms(2)] assms(1) by (auto simp: wf_graph_def)

lemma width_matmul: "h \<noteq> [] \<Longrightarrow> width (matmul h W) = width W"
  by (cases h) (simp_all add: width_def matmul_def length_vecmat)

lemma matmul_nth: "u < length h \<Longrightarrow> matmul h W ! u = vecmat (h ! u) W"
  by (simp add: matmul_def)

lemma rectangular_nth: "rectangular h \<Longrightarrow> u < length h \<Longrightarrow> length (h ! u) = width h"
  by (simp add: rectangular_def)

lemma matmul_update_all_copy_src:
  assumes len: "length h = num_nodes g" and wf: "wf_graph g" and rect: "rectangular h"
  shows "matmul (update_all_copy_src g h) W = update_all_copy_src g (matmul h W)"
proof -
  have "vecmat (vsum (width h) (map (\<lambda>(i, u). h ! u) (incoming g n))) W =
        vsum (width (matmul h W)) (map (\<lambda>(i, u). matmul h W ! u) (incoming g n))"
    if n: "n < num_nodes g" for n
  proof -
    from n len have ne: "h \<noteq> []" by auto
    have rng: "u < length h" if "(i, u) \<in> set (incoming g n)" for i u
      using incoming_in_range [OF wf that] len by simp
    have "\<forall>m \<in> set (map (\<lambda>(i, u). h ! u) (incoming g n)). length m = width h"
      using rng rect by (auto simp: rectangular_nth)
    then have "vecmat (vsum (width h) (map (\<lambda>(i, u). h ! u) (incoming g n))) W =
               vsum (width W) (map (\<lambda>m. vecmat m W) (map (\<lambda>(i, u). h ! u) (incoming g n)))"
      by (rule vecmat_vsum)
    also have "map (\<lambda>m. vecmat m W) (map (\<lambda>(i, u). h ! u) (incoming g n)) =
               map (\<lambda>(i, u). matmul h W ! u) (incoming g n)"
      using rng by (auto simp: matmul_nth)
    finally show ?thesis by (simp add: width_matmul [OF ne])
  qed
  then show ?thesis
    by (simp add: update_all_copy_src_def matmul_def [of "map f xs" for f xs])
qed

lemma matmul_update_all_u_mul_e:
  assumes len: "length h = num_nodes g" and wf: "wf_graph g" and rect: "rectangular h"
  shows "matmul (update_all_u_mul_e g h w) W = update_all_u_mul_e g (matmul h W) w"
proof -
  have "vecmat (vsum (width h) (map (\<lambda>(i, u). vscale (h ! u) (w ! i)) (incoming g n))) W =
        vsum (width (matmul h W)) (map (\<lambda>(i, u). vscale (matmul h W ! u) (w ! i)) (incoming g n))"
    if n: "n < num_nodes g" for n
  proof -
    from n len have ne: "h \<noteq> []" by auto
    have rng: "u < length h" if "(i, u) \<in> set (incoming g n)" for i u
      using incoming_in_range [OF wf that] len by simp
    have "\<forall>m \<in> set (map (\<lambda>(i, u). vscale (h ! u) (w ! i)) (incoming g n)). length m = width h"
      using rng rect by (auto simp: rectangular_nth vscale_def)
    then have "vecmat (vsum (width h) (map (\<lambda>(i, u). vscale (h ! u) (w ! i)) (incoming g n))) W =
               vsum (width W)
                 (map (\<lambda>m. vecmat m W) (map (\<lambda>(i, u). vscale (h ! u) (w ! i)) (incoming g n)))"
      by (rule vecmat_vsum)
    also have "map (\<lambda>m. vecmat m W) (map (\<lambda>(i, u). vscale (h ! u) (w ! i)) (incoming g n)) =
               map (\<lambda>(i, u). vscale (matmul h W ! u) (w ! i)) (incoming g n)"
      using rng by (auto simp: matmul_nth vecmat_vscale)
    finally show ?thesis by (simp add: width_matmul [OF ne])
  qed
  then show ?thesis
    by (simp add: update_all_u_mul_e_def matmul_def [of "map f xs" for f xs])
qed

lemma length_scale_rows: "length (scale_rows t c) = min (length t) (length c)"
  by (simp add: scale_rows_def)

lemma rectangular_scale_rows:
  assumes "rectangular t"
  shows "rectangular (scale_rows t c)"
proof (cases t)
  case Nil then show ?thesis by (simp add: rectangular_def scale_rows_def)
next
  case (Cons r rs)
  show ?thesis
  proof (cases c)
    case Nil then show ?thesis by (simp add: rectangular_def scale_rows_def)
  next
    case (Cons x xs)
    have "length r' = length r" if "r' \<in> set (scale_rows t c)" for r'
    proof -
      from that obtain q y where "q \<in> set t" and "r' = vscale q y"
        by (auto simp: scale_rows_def dest: set_zip_leftD)
      with assms \<open>t = r # rs\<close> show ?thesis
        by (auto simp: rectangular_def width_def vscale_def)
    qed
    moreover have "width (scale_rows t c) = length r"
      using \<open>t = r # rs\<close> Cons by (simp add: width_def scale_rows_def vscale_def)
    ultimately show ?thesis by (simp add: rectangular_def)
  qed
qed

lemma aggregate_then_multiply:
  assumes "length h = num_nodes g" and "wf_graph g" and "rectangular h"
  shows "(case w of None \<Rightarrow> (case ew of None \<Rightarrow> update_all_copy_src g h
                                     | Some e \<Rightarrow> update_all_u_mul_e g h e)
          | Some wt \<Rightarrow> matmul (case ew of None \<Rightarrow> update_all_copy_src g h
                                     | Some e \<Rightarrow> update_all_u_mul_e g h e) wt) =
         (case ew of None \<Rightarrow> update_all_copy_src g (case w of None \<Rightarrow> h | Some wt \<Rightarrow> matmul h wt)
          | Some e \<Rightarrow> update_all_u_mul_e g (case w of None \<Rightarrow> h | Some wt \<Rightarrow> matmul h wt) e)"
  using assms
  by (simp add: matmul_update_all_copy_src matmul_update_all_u_mul_e split: option.splits)

lemma length_clamp_out: "length (clamp_min (out_degrees g) m) = num_nodes g"
  by (simp add: clamp_min_def out_degrees_def)

lemma length_clamp_in: "length (clamp_min (in_degrees g) m) = num_nodes g"
  by (simp add: clamp_min_def in_degrees_def)

section \<open>The order of aggregation and weight multiplication\<close>

text \<open>
  C5. In \<open>UndirectedGCNLayerConv.forward\<close> the comparison of \<open>in_feats\<close> with
  \<open>out_feats\<close> only chooses between multiplying by the weight before the aggregation
  and after it. Under exact arithmetic, for every well-formed graph, every rectangular
  feature tensor with one row per node, every weight, edge weighting and normalization
  mode, the two orders give the same output: a layer that differs from another only in
  the two sizes (so that one takes the multiply-first path, \<open>in_feats > out_feats\<close>,
  and the other the aggregate-first path) returns the same result.
\<close>

theorem forward_order_irrelevant:
  assumes len: "length feat = num_nodes graph" and wf: "wf_graph graph"
    and rect: "rectangular feat"
  shows "UndirectedGCNLayerConv_forward (self\<lparr>in_feats := a, out_feats := b\<rparr>)
           graph feat w ew rw =
         UndirectedGCNLayerConv_forward (self\<lparr>in_feats := a', out_feats := b'\<rparr>)
           graph feat w ew rw"
proof -
  define h where "h = (if norm_mode self = ''both''
                    then scale_rows feat
                           (map (\<lambda>d. d powr (- 0.5)) (clamp_min (out_degrees graph) 1))
                    else feat)"
  have "length h = num_nodes graph"
    using len by (simp add: h_def length_scale_rows length_clamp_out)
  moreover have "rectangular h"
    using rect by (simp add: h_def rectangular_scale_rows)
  ultimately have eq: "\<And>w. (case w of None \<Rightarrow> (case ew of None \<Rightarrow> update_all_copy_src graph h
                                     | Some e \<Rightarrow> update_all_u_mul_e graph h e)
          | Some wt \<Rightarrow> matmul (case ew of None \<Rightarrow> update_all_copy_src graph h
                                     | Some e \<Rightarrow> update_all_u_mul_e graph h e) wt) =
         (case ew of None \<Rightarrow> update_all_copy_src graph (case w of None \<Rightarrow> h | Some wt \<Rightarrow> matmul h wt)
          | Some e \<Rightarrow> update_all_u_mul_e graph (case w of None \<Rightarrow> h | Some wt \<Rightarrow> matmul h wt) e)"
    using wf by (intro aggregate_then_multiply)
  have sel: "norm_mode (self\<lparr>in_feats := x, out_feats := y\<rparr>) = norm_mode self"
    "weight (self\<lparr>in_feats := x, out_feats := y\<rparr>) = weight self"
    "bias (self\<lparr>in_feats := x, out_feats := y\<rparr>) = bias self"
    "activation (self\<lparr>in_feats := x, out_feats := y\<rparr>) = activation self"
    "in_feats (self\<lparr>in_feats := x, out_feats := y\<rparr>) = x"
    "out_feats (self\<lparr>in_feats := x, out_feats := y\<rparr>) = y" for x y
    by simp_all
  show ?thesis
    unfolding UndirectedGCNLayerConv_forward_def Let_def sel h_def [symmetric]
    by (simp only: eq if_cancel)
qed

text \<open>
  The theorem at the path graph with edge weights 2 and 3 and a weight matrix of shape
  \<open>(2, 1)\<close>: the layer with sizes 2 and 1 multiplies first, the layer with sizes 1 and 2
  aggregates first, and both return the rows 0, 6 and 21.
\<close>

theorem forward_order_irrelevant_witness:
  "UndirectedGCNLayerConv_forward
     (\<lparr>in_feats = 0, out_feats = 0, norm_mode = ''none'', allow_zero_in_degree = False,
       activation = None, weight = Some [[1], [1]], bias = None\<rparr>
      \<lparr>in_feats := 2, out_feats := 1\<rparr>)
     path_graph [[1, 2], [3, 4], [5, 6]] None (Some [2, 3]) None =
   UndirectedGCNLayerConv_forward
     (\<lparr>in_feats = 0, out_feats = 0, norm_mode = ''none'', allow_zero_in_degree = False,
       activation = None, weight = Some [[1], [1]], bias = None\<rparr>
      \<lparr>in_feats := 1, out_feats := 2\<rparr>)
     path_graph [[1, 2], [3, 4], [5, 6]] None (Some [2, 3]) None
   \<and> UndirectedGCNLayerConv_forward
     (\<lparr>in_feats = 0, out_feats = 0, norm_mode = ''none'', allow_zero_in_degree = False,
       activation = None, weight = Some [[1], [1]], bias = None\<rparr>
      \<lparr>in_feats := 1, out_feats := 2\<rparr>)
     path_graph [[1, 2], [3, 4], [5, 6]] None (Some [2, 3]) None = Inr [[0], [6], [21]]"
proof -
  have len: "length [[1, 2], [3, 4], [5, 6 :: real]] = num_nodes path_graph"
    by (simp add: path_graph_def)
  have wf: "wf_graph path_graph"
    by (simp add: wf_graph_def path_graph_def)
  have rect: "rectangular [[1, 2], [3, 4], [5, 6]]"
    by (simp add: rectangular_def width_def)
  have val: "UndirectedGCNLayerConv_forward
     (\<lparr>in_feats = 0, out_feats = 0, norm_mode = ''none'', allow_zero_in_degree = False,
       activation = None, weight = Some [[1], [1]], bias = None\<rparr>
      \<lparr>in_feats := 1, out_feats := 2\<rparr>)
     path_graph [[1, 2], [3, 4], [5, 6]] None (Some [2, 3]) None = Inr [[0], [6], [21]]"
    by (simp add: UndirectedGCNLayerConv_forward_def path_graph_def tensor_defs graph_defs
          upt_3 enumerate_eq_zip upt_rec)
  from forward_order_irrelevant [OF len wf rect,
      where a = 2 and b = 1 and a' = 1 and b' = 2 and w = None and ew = "Some [2, 3]"
        and rw = None
        and self = "\<lparr>in_feats = 0, out_feats = 0, norm_mode = ''none'',
          allow_zero_in_degree = False, activation = None, weight = Some [[1], [1]],
          bias = None\<rparr>"]
    val
  show ?thesis
    by simp
qed

lemma upt_4: "[0..<4] = [0, 1, 2, 3]"
  by (simp add: upt_rec)

section \<open>Aggregation without normalization and edge weights\<close>

text \<open>
  C6. With \<open>norm = 'none'\<close> and no edge weights, the output of the undirected layer
  (with a weight, a bias and no activation) at every node is the sum of the input
  features of the sources of its incoming edges, multiplied by the weight matrix, plus
  the bias. In particular, on the path graph \<open>0 \<rightarrow> 1 \<rightarrow> 2\<close> with features of width 4,
  identity weight and zero bias, the output at node 2 is the input feature of node 1
  (and the output at node 1 that of node 0).
\<close>

theorem unweighted_sum_of_neighbours:
  assumes len: "length feat = num_nodes graph" and wf: "wf_graph graph"
    and rect: "rectangular feat"
    and none: "norm_mode self = ''none''"
    and wt: "weight self = Some W" and bs: "bias self = Some b"
    and act: "activation self = None"
  shows "UndirectedGCNLayerConv_forward self graph feat None None None =
           Inr (map (\<lambda>n. vadd (vecmat (vsum (width feat)
                                     (map (\<lambda>(i, u). feat ! u) (incoming graph n))) W) b)
                  [0..<num_nodes graph])
         \<and> UndirectedGCNLayerConv_forward identity4_layer path_graph
             [[a0, a1, a2, a3], [b0, b1, b2, b3], [c0, c1, c2, c3]] None None None =
           Inr [[0, 0, 0, 0], [a0, a1, a2, a3], [b0, b1, b2, b3]]"
proof
  have "update_all_copy_src graph (matmul feat W) = matmul (update_all_copy_src graph feat) W"
    using matmul_update_all_copy_src [OF len wf rect] by simp
  then have "UndirectedGCNLayerConv_forward self graph feat None None None =
      Inr (add_bias (matmul (update_all_copy_src graph feat) W) b)"
    using none wt bs act by (simp add: UndirectedGCNLayerConv_forward_def Let_def)
  then show "UndirectedGCNLayerConv_forward self graph feat None None None =
           Inr (map (\<lambda>n. vadd (vecmat (vsum (width feat)
                                     (map (\<lambda>(i, u). feat ! u) (incoming graph n))) W) b)
                  [0..<num_nodes graph])"
    by (simp add: add_bias_def matmul_def update_all_copy_src_def)
next
  show "UndirectedGCNLayerConv_forward identity4_layer path_graph
             [[a0, a1, a2, a3], [b0, b1, b2, b3], [c0, c1, c2, c3]] None None None =
           Inr [[0, 0, 0, 0], [a0, a1, a2, a3], [b0, b1, b2, b3]]"
    by (simp add: UndirectedGCNLayerConv_forward_def identity4_layer_def path_graph_def
          tensor_defs graph_defs upt_3 upt_4 enumerate_eq_zip upt_rec)
qed

text \<open>The theorem's first part at the path graph with concrete features.\<close>

theorem unweighted_sum_of_neighbours_witness:
  "UndirectedGCNLayerConv_forward identity4_layer path_graph
     [[1, 2, 3, 4], [5, 6, 7, 8], [9, 10, 11, 12]] None None None =
   Inr [[0, 0, 0, 0], [1, 2, 3, 4], [5, 6, 7, 8]]"
proof -
  have len: "length [[1, 2, 3, 4], [5, 6, 7, 8], [9, 10, 11, 12 :: real]] = num_nodes path_graph"
    by (simp add: path_graph_def)
  have wf: "wf_graph path_graph"
    by (simp add: wf_graph_def path_graph_def)
  have rect: "rectangular [[1, 2, 3, 4], [5, 6, 7, 8], [9, 10, 11, 12]]"
    by (simp add: rectangular_def width_def)
  have none: "norm_mode identity4_layer = ''none''"
    and wt: "weight identity4_layer =
               Some [[1, 0, 0, 0], [0, 1, 0, 0], [0, 0, 1, 0], [0, 0, 0, 1]]"
    and bs: "bias identity4_layer = Some [0, 0, 0, 0]"
    and act: "activation identity4_layer = None"
    by (simp_all add: identity4_layer_def)
  from unweighted_sum_of_neighbours [OF len wf rect none wt bs act]
  have "UndirectedGCNLayerConv_forward identity4_layer path_graph
     [[1, 2, 3, 4], [5, 6, 7, 8], [9, 10, 11, 12]] None None None =
    Inr (map (\<lambda>n. vadd (vecmat (vsum (width [[1, 2, 3, 4], [5, 6, 7, 8], [9, 10, 11, 12]])
                 (map (\<lambda>(i, u). [[1, 2, 3, 4], [5, 6, 7, 8], [9, 10, 11, 12]] ! u)
                    (incoming path_graph n)))
               [[1, 0, 0, 0], [0, 1, 0, 0], [0, 0, 1, 0], [0, 0, 0, 1]]) [0, 0, 0, 0])
           [0..<num_nodes path_graph])"
    by blast
  then show ?thesis
    by (simp add: path_graph_def tensor_defs graph_defs upt_3 upt_4 enumerate_eq_zip upt_rec)
qed

section \<open>Configuration errors\<close>

lemma undirected_weight_conflict:
  "weight self \<noteq> None \<Longrightarrow>
   UndirectedGCNLayerConv_forward self graph feat (Some wt) ew None = Inl RuntimeError"
  by (simp add: UndirectedGCNLayerConv_forward_def Let_def)

lemma undirected_weight_conflict_error:
  "weight self \<noteq> None \<Longrightarrow>
   \<exists>e. UndirectedGCNLayerConv_forward self graph feat (Some wt) ew rw = Inl e"
  by (simp add: UndirectedGCNLayerConv_forward_def Let_def)

lemma bisep_weight_conflict:
  "weight_fw self \<noteq> None \<Longrightarrow>
   BiSepGCNLayerConv_forward self graph feats (OneWeight wt) ew rw = Inl RuntimeError"
  by (cases feats)
     (simp add: BiSepGCNLayerConv_forward_def BiSep_forward_direction_def weight_pair_def Let_def)

lemma bifuse_weight_conflict:
  "weight_fw self \<noteq> None \<Longrightarrow>
   BiFuseGCNLayerConv_forward self graph feat (OneWeight wt) ew rw = Inl RuntimeError"
  by (simp add: BiFuseGCNLayerConv_forward_def BiFuse_forward_direction_def weight_pair_def
        Let_def)

text \<open>
  C8. A normalization string outside \<open>{'none', 'both', 'right'}\<close> makes the three layer
  constructors, and \<open>GCNLayer\<close> with any direction option, raise \<open>RuntimeError\<close>; a
  direction option outside \<open>{'undirected', 'bi_sep', 'bi_fuse'}\<close> makes \<open>GCNLayer\<close> raise
  \<open>RuntimeError\<close>; and \<open>forward\<close> with an external weight on a layer that holds its own
  weight raises at that call, for each of the three variants, directly and through
  \<open>GCNLayer.forward\<close>. In every case the result is the error: no layer and no output is
  produced from the invalid configuration.
\<close>

theorem configuration_errors:
  "(nrm \<notin> {''none'', ''both'', ''right''} \<longrightarrow>
      UndirectedGCNLayerConv_init n_in n_out nrm w b act azd x = Inl RuntimeError \<and>
      BiSepGCNLayerConv_init n_in n_out nrm w b act azd x_fw x_bw = Inl RuntimeError \<and>
      BiFuseGCNLayerConv_init n_in n_out nrm w b act azd x_fw x_bw lw lb = Inl RuntimeError \<and>
      GCNLayer_init n_in n_out direction nrm w b act azd draws = Inl RuntimeError)
   \<and> (direction \<notin> {''undirected'', ''bi_sep'', ''bi_fuse''} \<longrightarrow>
      GCNLayer_init n_in n_out direction nrm w b act azd draws = Inl RuntimeError)
   \<and> (weight u \<noteq> None \<longrightarrow>
      UndirectedGCNLayerConv_forward u graph feat (Some wt) ew None = Inl RuntimeError \<and>
      (\<exists>e. UndirectedGCNLayerConv_forward u graph feat (Some wt) ew rw = Inl e) \<and>
      GCNLayer_forward (Undirected u) graph (Single feat) (Some wt) ew None = Inl RuntimeError)
   \<and> (weight_fw s \<noteq> None \<longrightarrow>
      BiSepGCNLayerConv_forward s graph feats (OneWeight wt) ew rw = Inl RuntimeError \<and>
      GCNLayer_forward (BiSep s) graph (Paired f_fw f_bw) (Some wt) ew rw = Inl RuntimeError)
   \<and> (weight_fw f \<noteq> None \<longrightarrow>
      BiFuseGCNLayerConv_forward f graph feat (OneWeight wt) ew rw = Inl RuntimeError \<and>
      GCNLayer_forward (BiFuse f) graph (Single feat) (Some wt) ew rw = Inl RuntimeError)"
proof (intro conjI impI)
  assume bad: "nrm \<notin> {''none'', ''both'', ''right''}"
  then show u: "UndirectedGCNLayerConv_init n_in n_out nrm w b act azd x = Inl RuntimeError"
    for x by (simp add: UndirectedGCNLayerConv_init_def)
  from bad show s: "BiSepGCNLayerConv_init n_in n_out nrm w b act azd x_fw x_bw = Inl RuntimeError"
    for x_fw x_bw by (simp add: BiSepGCNLayerConv_init_def)
  from bad show f: "BiFuseGCNLayerConv_init n_in n_out nrm w b act azd x_fw x_bw lw lb =
      Inl RuntimeError" for x_fw x_bw lw lb
    by (simp add: BiFuseGCNLayerConv_init_def)
  show "GCNLayer_init n_in n_out direction nrm w b act azd draws = Inl RuntimeError"
    by (simp add: GCNLayer_init_def u s f)
next
  assume "direction \<notin> {''undirected'', ''bi_sep'', ''bi_fuse''}"
  then show "GCNLayer_init n_in n_out direction nrm w b act azd draws = Inl RuntimeError"
    by (simp add: GCNLayer_init_def)
next
  assume own: "weight u \<noteq> None"
  then show "UndirectedGCNLayerConv_forward u graph feat (Some wt) ew None = Inl RuntimeError"
    by (rule undirected_weight_conflict)
  from own show "\<exists>e. UndirectedGCNLayerConv_forward u graph feat (Some wt) ew rw = Inl e"
    by (rule undirected_weight_conflict_error)
  from own show "GCNLayer_forward (Undirected u) graph (Single feat) (Some wt) ew None =
      Inl RuntimeError"
    by (simp add: GCNLayer_forward_def undirected_weight_conflict)
next
  assume own: "weight_fw s \<noteq> None"
  then show "BiSepGCNLayerConv_forward s graph feats (OneWeight wt) ew rw = Inl RuntimeError"
    by (rule bisep_weight_conflict)
  from own show "GCNLayer_forward (BiSep s) graph (Paired f_fw f_bw) (Some wt) ew rw =
      Inl RuntimeError"
    by (simp add: GCNLayer_forward_def bisep_weight_conflict)
next
  assume own: "weight_fw f \<noteq> None"
  then show "BiFuseGCNLayerConv_forward f graph feat (OneWeight wt) ew rw = Inl RuntimeError"
    by (rule bifuse_weight_conflict)
  from own show "GCNLayer_forward (BiFuse f) graph (Single feat) (Some wt) ew rw =
      Inl RuntimeError"
    by (simp add: GCNLayer_forward_def bifuse_weight_conflict)
qed


text \<open>The theorem at an invalid norm, an invalid direction and three layers with weights.\<close>

theorem configuration_errors_witness:
  "UndirectedGCNLayerConv_init 4 4 ''left'' True True None False [] = Inl RuntimeError
   \<and> GCNLayer_init 4 4 ''bi_sep'' ''left'' True True None False
        \<lparr>xavier_w = [], xavier_w_fw = [], xavier_w_bw = [], linear_w = [], linear_b = []\<rparr>
      = Inl RuntimeError
   \<and> GCNLayer_init 4 4 ''bidirectional'' ''both'' True True None False
        \<lparr>xavier_w = [], xavier_w_fw = [], xavier_w_bw = [], linear_w = [], linear_b = []\<rparr>
      = Inl RuntimeError
   \<and> UndirectedGCNLayerConv_forward identity4_layer path_graph [[1, 2, 3, 4]] (Some [[1]])
        None None = Inl RuntimeError
   \<and> BiSepGCNLayerConv_forward (bisep_layer.truncate weighted_bifuse) path_graph
        ([[1], [1], [1]], [[1], [1], [1]]) (OneWeight [[1]]) None None = Inl RuntimeError
   \<and> BiFuseGCNLayerConv_forward weighted_bifuse path_graph [[1], [1], [1]] (OneWeight [[1]])
        None None = Inl RuntimeError"
proof -
  have n: "''left'' \<notin> {''none'', ''both'', ''right''}"
    by simp
  have d: "''bidirectional'' \<notin> {''undirected'', ''bi_sep'', ''bi_fuse''}"
    by simp
  have u: "weight identity4_layer \<noteq> None"
    by (simp add: identity4_layer_def)
  have s: "weight_fw (bisep_layer.truncate weighted_bifuse) \<noteq> None"
    by (simp add: weighted_bifuse_def bisep_layer.truncate_def)
  have f: "weight_fw weighted_bifuse \<noteq> None"
    by (simp add: weighted_bifuse_def)
  from configuration_errors [where nrm = "''left''" and direction = "''bi_sep''"
      and u = identity4_layer and s = "bisep_layer.truncate weighted_bifuse"
      and f = weighted_bifuse] n u s f
  have 1: "UndirectedGCNLayerConv_init 4 4 ''left'' True True None False [] = Inl RuntimeError"
    and 2: "GCNLayer_init 4 4 ''bi_sep'' ''left'' True True None False
        \<lparr>xavier_w = [], xavier_w_fw = [], xavier_w_bw = [], linear_w = [], linear_b = []\<rparr>
      = Inl RuntimeError"
    and 4: "UndirectedGCNLayerConv_forward identity4_layer path_graph [[1, 2, 3, 4]]
        (Some [[1]]) None None = Inl RuntimeError"
    and 5: "BiSepGCNLayerConv_forward (bisep_layer.truncate weighted_bifuse) path_graph
        ([[1], [1], [1]], [[1], [1], [1]]) (OneWeight [[1]]) None None = Inl RuntimeError"
    and 6: "BiFuseGCNLayerConv_forward weighted_bifuse path_graph [[1], [1], [1]]
        (OneWeight [[1]]) None None = Inl RuntimeError"
    by simp_all
  from configuration_errors [where nrm = "''both''" and direction = "''bidirectional''"] d
  have 3: "GCNLayer_init 4 4 ''bidirectional'' ''both'' True True None False
        \<lparr>xavier_w = [], xavier_w_fw = [], xavier_w_bw = [], linear_w = [], linear_b = []\<rparr>
      = Inl RuntimeError"
    by simp
  from 1 2 3 4 5 6 show ?thesis
    by simp
qed



section \<open>Clamped degrees\<close>














section \<open>Bracket repair\<close>

lemma count_symbol_defined:
  "\<forall>c \<in> set cs. \<exists>t. idx2symbol c = Inr t \<Longrightarrow>
   count_symbol idx2symbol symb cs = Inr (paren_count idx2symbol symb cs)"
  by (induction cs) (auto simp: paren_count_def)

lemma append_loop_raises:
  "0 < n \<Longrightarrow> append_loop n (Inl e) candidate = Inl e"
  by (cases n) simp_all

lemma rparen_lookup_raises: "rparen_lookup loader = Inl AttributeError"
  by (simp add: rparen_lookup_def DataLoader_tgt_vocab_def)

lemma paren_count_le: "paren_count idx2symbol symb cs \<le> length cs"
  by (simp add: paren_count_def)

text \<open>
  C2. The claim is that a candidate with \<open>d > 0\<close> more opening than closing brackets
  gets exactly \<open>d\<close> closing brackets appended, that one with \<open>d\<close> more closing brackets
  loses exactly its last \<open>d\<close> tokens, and that a balanced one is unchanged. The code
  does the last two. For the first it reads the closing bracket from
  \<open>self.test_data_loader.tgt_vocab\<close>, an attribute the data loader does not have: on the
  candidate \<open>( ( job ) (\<close> with two unmatched opening brackets the repair raises
  \<open>AttributeError\<close> and appends nothing. The candidate \<open>( job ) ) )\<close> is cut to
  \<open>( job )\<close>, and \<open>( job )\<close> is returned as it is.
\<close>

theorem bracket_repair_append_raises:
  "eval_repair example_idx2symbol test_data_loader [1, 1, 3, 2, 1] = Inl AttributeError
   \<and> eval_repair example_idx2symbol test_data_loader [1, 3, 2, 2, 2] = Inr [1, 3, 2]
   \<and> eval_repair example_idx2symbol test_data_loader [1, 3, 2] = Inr [1, 3, 2]"
  by (simp add: eval_repair_def example_idx2symbol_def rparen_lookup_raises slice_to_def
        numeral_2_eq_2)

text \<open>
  In general, for every candidate whose tokens the evaluation vocabulary knows: with
  more opening than closing brackets the repair raises \<open>AttributeError\<close>, whatever the
  data loader; with \<open>d\<close> more closing than opening brackets exactly the last \<open>d\<close> tokens
  are cut off (and the candidate has at least \<open>d\<close> tokens); a balanced candidate is
  returned unchanged.
\<close>

lemma bracket_repair_cases:
  assumes defined: "\<forall>c \<in> set candidate. \<exists>t. idx2symbol c = Inr t"
  shows "(paren_count idx2symbol '')'' candidate < paren_count idx2symbol ''('' candidate \<longrightarrow>
            eval_repair idx2symbol loader candidate = Inl AttributeError)
         \<and> (paren_count idx2symbol ''('' candidate < paren_count idx2symbol '')'' candidate \<longrightarrow>
            eval_repair idx2symbol loader candidate =
              Inr (take (length candidate - (paren_count idx2symbol '')'' candidate
                                               - paren_count idx2symbol ''('' candidate))
                     candidate)
            \<and> paren_count idx2symbol '')'' candidate - paren_count idx2symbol ''('' candidate
                \<le> length candidate)
         \<and> (paren_count idx2symbol ''('' candidate = paren_count idx2symbol '')'' candidate \<longrightarrow>
            eval_repair idx2symbol loader candidate = Inr candidate)"
proof -
  let ?l = "paren_count idx2symbol ''('' candidate"
  let ?r = "paren_count idx2symbol '')'' candidate"
  have l: "count_symbol idx2symbol ''('' candidate = Inr ?l"
    and r: "count_symbol idx2symbol '')'' candidate = Inr ?r"
    using defined by (simp_all add: count_symbol_defined)
  have more_open: "eval_repair idx2symbol loader candidate = Inl AttributeError" if "?r < ?l"
  proof -
    from that have "0 < nat (int ?l - int ?r)" by simp
    with that show ?thesis
      by (simp add: eval_repair_def l r Let_def rparen_lookup_raises append_loop_raises)
  qed
  have more_close: "eval_repair idx2symbol loader candidate =
      Inr (take (length candidate - (?r - ?l)) candidate)" if "?l < ?r"
  proof -
    have "?r \<le> length candidate" by (rule paren_count_le)
    with that have "nat (int (length candidate) + (int ?l - int ?r)) =
        length candidate - (?r - ?l)"
      by simp
    with that show ?thesis
      by (simp add: eval_repair_def l r Let_def slice_to_def)
  qed
  have bound: "?r - ?l \<le> length candidate"
    using paren_count_le [of idx2symbol "'')''" candidate] by simp
  have balanced: "eval_repair idx2symbol loader candidate = Inr candidate" if "?l = ?r"
    using that by (simp add: eval_repair_def l r Let_def)
  from more_open more_close bound balanced show ?thesis
    by blast
qed

section \<open>The output layer of the encoder ignores edge weights\<close>

lemma edge_weight_lookup_cases:
  assumes "dom (edge_features g1) = dom (edge_features g2)"
  shows "(edge_features g1 k = None) = (edge_features g2 k = None)"
  using assms by (metis domIff)

text \<open>
  An encoder constructed with \<open>num_layers = 1\<close> has exactly one layer, the output
  projection; \<open>num_layers = 0\<close> fails the assertion of the constructor.
\<close>

lemma GCN_init_single_layer:
  assumes "GCN_init 1 n_in hidden n_out direction nrm w b act azd uew draws = Inr g"
  shows "num_layers g = 1 \<and> length (gcn_layers g) = 1 \<and> use_edge_weight g = uew"
  using assms
  by (auto simp: GCN_init_def Let_def split: sum.splits)

lemma GCN_init_no_layers:
  "GCN_init 0 n_in hidden n_out direction nrm w b act azd uew draws = Inl AssertionError"
  by (simp add: GCN_init_def)

text \<open>
  C10. \<open>GCN.forward\<close> passes the edge weights to the layers \<open>0, ..., num_layers - 2\<close> only;
  the output layer is called without them. So for an encoder with \<open>num_layers = 1\<close>, two
  runs on graphs with the same node features, the same topology and the same edge
  feature slots, whatever the values stored under \<open>'edge_weight'\<close> and
  \<open>'reverse_edge_weight'\<close>, end in the same error or in the same node features (with the
  same \<open>'node_emb'\<close>); and when both slots are there, the run is the run of the same
  encoder with \<open>use_edge_weight = False\<close>.
\<close>

theorem single_layer_ignores_edge_weights:
  assumes one: "num_layers self = 1"
    and nodes: "node_features g1 = node_features g2"
    and topo: "topology g1 = topology g2"
    and slots: "dom (edge_features g1) = dom (edge_features g2)"
  shows "map_sum id node_features (GCN_forward self g1) =
         map_sum id node_features (GCN_forward self g2)
         \<and> (edge_features g1 ''edge_weight'' \<noteq> None \<longrightarrow>
            edge_features g1 ''reverse_edge_weight'' \<noteq> None \<longrightarrow>
            GCN_forward self g1 = GCN_forward (self\<lparr>use_edge_weight := False\<rparr>) g1)"
proof
  have ew: "(edge_features g1 ''edge_weight'' = None) = (edge_features g2 ''edge_weight'' = None)"
    and rw: "(edge_features g1 ''reverse_edge_weight'' = None) =
             (edge_features g2 ''reverse_edge_weight'' = None)"
    using slots by (rule edge_weight_lookup_cases)+
  show "map_sum id node_features (GCN_forward self g1) =
        map_sum id node_features (GCN_forward self g2)"
    using ew rw
    by (auto simp: GCN_forward_def one nodes topo to_dgl_def Let_def
             split: option.splits sum.splits feats.splits)
next
  show "edge_features g1 ''edge_weight'' \<noteq> None \<longrightarrow>
        edge_features g1 ''reverse_edge_weight'' \<noteq> None \<longrightarrow>
        GCN_forward self g1 = GCN_forward (self\<lparr>use_edge_weight := False\<rparr>) g1"
    by (auto simp: GCN_forward_def one to_dgl_def Let_def
             split: option.splits sum.splits feats.splits)
qed


text \<open>The theorem at two path graphs that differ in both edge weights.\<close>

theorem single_layer_ignores_edge_weights_witness:
  "map_sum id node_features (GCN_forward single_layer_encoder (weighted_path [2, 3] [1, 1])) =
   map_sum id node_features (GCN_forward single_layer_encoder (weighted_path [5, 7] [4, 4]))
   \<and> GCN_forward single_layer_encoder (weighted_path [2, 3] [1, 1]) =
     GCN_forward (single_layer_encoder\<lparr>use_edge_weight := False\<rparr>) (weighted_path [2, 3] [1, 1])"
proof -
  have one: "num_layers single_layer_encoder = 1"
    by (simp add: single_layer_encoder_def)
  have nodes: "node_features (weighted_path [2, 3] [1, 1]) =
               node_features (weighted_path [5, 7] [4, 4])"
    and topo: "topology (weighted_path [2, 3] [1, 1]) = topology (weighted_path [5, 7] [4, 4])"
    and slots: "dom (edge_features (weighted_path [2, 3] [1, 1])) =
                dom (edge_features (weighted_path [5, 7] [4, 4]))"
    by (simp_all add: weighted_path_def)
  have present: "edge_features (weighted_path [2, 3] [1, 1]) ''edge_weight'' \<noteq> None"
    "edge_features (weighted_path [2, 3] [1, 1]) ''reverse_edge_weight'' \<noteq> None"
    by (simp_all add: weighted_path_def)
  from single_layer_ignores_edge_weights [OF one nodes topo slots] present show ?thesis
    by blast
qed

section \<open>Isolation of the extended vocabulary\<close>

lemma wf_vocabE:
  assumes "wf_vocab s v"
  obtains d l t u m xs where "v < length s" "s ! v = VocabObj d l t u"
    "d < length s" "s ! d = DictObj m" "l < length s" "s ! l = ListObj xs"
proof -
  from assms obtain d l t u where 1: "deref s v = Some (VocabObj d l t u)"
    by (auto simp: wf_vocab_def split: option.splits obj.splits)
  with assms obtain m where 2: "deref s d = Some (DictObj m)"
    by (auto simp: wf_vocab_def split: option.splits obj.splits)
  with assms 1 obtain xs where 3: "deref s l = Some (ListObj xs)"
    by (auto simp: wf_vocab_def split: option.splits obj.splits)
  from 1 2 3 show thesis
    by (intro that [of d l t u m xs]) (auto simp: deref_def split: if_splits)
qed

lemma deepcopy_owns:
  assumes "wf_vocab s v"
  obtains o' s1 m xs where "deepcopy s v = Inr (o', s1)" "take (length s) s1 = s"
    "vocab_contents s v = Some (m, xs)" "owns (length s) m xs s1 o'" "o' \<noteq> v"
proof -
  from assms obtain d l t u m xs where v: "v < length s" "s ! v = VocabObj d l t u"
    "d < length s" "s ! d = DictObj m" "l < length s" "s ! l = ListObj xs"
    by (rule wf_vocabE)
  let ?s1 = "s @ [DictObj m, ListObj xs, VocabObj (length s) (length s + 1) t u]"
  have 1: "deepcopy s v = Inr (length s + 2, ?s1)"
    using v by (simp add: deepcopy_def deref_def)
  have 2: "take (length s) ?s1 = s" by simp
  have 3: "vocab_contents s v = Some (m, xs)"
    using v by (simp add: vocab_contents_def deref_def)
  have 4: "owns (length s) m xs ?s1 (length s + 2)"
    unfolding owns_def
    by (rule exI [of _ "length s"], rule exI [of _ "length s + 1"], rule exI [of _ t],
        rule exI [of _ u], rule exI [of _ "[]"], rule exI [of _ "[]"])
       (simp add: nth_append)
  have 5: "length s + 2 \<noteq> v" using v by simp
  from 1 2 3 4 5 show ?thesis by (rule that)
qed

lemma owns_get_symbol_idx:
  assumes "owns n m0 xs0 s v"
  shows "\<exists>i. get_symbol_idx s v tok = Inr i"
  using assms by (auto simp: owns_def get_symbol_idx_def deref_def)

lemma owns_unk_token:
  assumes "owns n m0 xs0 s v"
  shows "\<exists>t. unk_token s v = Inr t"
  using assms by (auto simp: owns_def unk_token_def deref_def)

lemma owns_add_symbol:
  assumes "owns n m0 xs0 s v"
  shows "\<exists>i s1. add_symbol s v tok = Inr (i, s1) \<and> owns n m0 xs0 s1 v \<and>
           take n s1 = take n s"
proof -
  from assms obtain d l t u m xs where o: "v < length s" "s ! v = VocabObj d l t u"
    "n \<le> d" "d < length s" "n \<le> l" "l < length s"
    "s ! d = DictObj (m0 @ m)" "s ! l = ListObj (xs0 @ xs)"
    by (auto simp: owns_def)
  then have ne: "d \<noteq> l" "d \<noteq> v" "l \<noteq> v" by auto
  show ?thesis
  proof (cases "map_of (m0 @ m) tok")
    case (Some i)
    with o have "add_symbol s v tok = Inr (i, s)"
      by (simp add: add_symbol_def deref_def del: map_of_append)
    with assms show ?thesis by simp
  next
    case None
    let ?k = "length (xs0 @ xs)"
    let ?s1 = "s[d := DictObj ((m0 @ m) @ [(tok, ?k)]), l := ListObj ((xs0 @ xs) @ [tok])]"
    from None o have 1: "add_symbol s v tok = Inr (?k, ?s1)"
      by (simp add: add_symbol_def deref_def del: map_of_append)
    have 2: "owns n m0 xs0 ?s1 v"
      unfolding owns_def
      by (rule exI [of _ d], rule exI [of _ l], rule exI [of _ t], rule exI [of _ u],
          rule exI [of _ "m @ [(tok, ?k)]"], rule exI [of _ "xs @ [tok]"])
         (use o ne in simp)
    have 3: "take n ?s1 = take n s"
      using o by simp
    from 1 2 3 show ?thesis by blast
  qed
qed

lemma owns_ext_vocab_loop:
  assumes "owns n m0 xs0 s v"
  shows "\<exists>tm s1. ext_vocab_loop s v ns acc = Inr (tm, s1) \<and> owns n m0 xs0 s1 v \<and>
           take n s1 = take n s"
  using assms
proof (induction ns arbitrary: s acc)
  case Nil
  then show ?case by simp
next
  case (Cons a ns)
  let ?step = "(if node_type a = None \<or> node_type a = Some 0 then
              (case get_symbol_idx s v (token a) of
                 Inl e \<Rightarrow> Inl e
               | Inr i \<Rightarrow>
                   (case unk_token s v of
                      Inl e \<Rightarrow> Inl e
                    | Inr u \<Rightarrow>
                        (case get_symbol_idx s v u of
                           Inl e \<Rightarrow> Inl e
                         | Inr j \<Rightarrow>
                             if i = j
                             then map_sum id snd (add_symbol s v (token a))
                             else Inr s)))
            else Inr s)"
  have "\<exists>s1. ?step = Inr s1 \<and> owns n m0 xs0 s1 v \<and> take n s1 = take n s"
  proof -
    obtain i where i: "get_symbol_idx s v (token a) = Inr i"
      using owns_get_symbol_idx [OF Cons.prems] by blast
    obtain u where u: "unk_token s v = Inr u"
      using owns_unk_token [OF Cons.prems] by blast
    obtain j where j: "get_symbol_idx s v u = Inr j"
      using owns_get_symbol_idx [OF Cons.prems] by blast
    obtain k s1 where a: "add_symbol s v (token a) = Inr (k, s1)" "owns n m0 xs0 s1 v"
      "take n s1 = take n s"
      using owns_add_symbol [OF Cons.prems] by blast
    show ?thesis
      using Cons.prems by (simp add: i u j a)
  qed
  then obtain s1 where s1: "?step = Inr s1" "owns n m0 xs0 s1 v" "take n s1 = take n s"
    by blast
  obtain k where k: "get_symbol_idx s1 v (token a) = Inr k"
    using owns_get_symbol_idx [OF s1(2)] by blast
  from Cons.IH [OF s1(2), of "acc @ [k]"] obtain tm s2 where
    "ext_vocab_loop s1 v ns (acc @ [k]) = Inr (tm, s2)" "owns n m0 xs0 s2 v"
    "take n s2 = take n s1"
    by blast
  with s1 k show ?case
    by (simp add: Let_def)
qed

lemma owns_add_symbols:
  assumes "owns n m0 xs0 s v"
  shows "\<exists>s1. add_symbols s v toks = Inr s1 \<and> owns n m0 xs0 s1 v \<and> take n s1 = take n s"
  using assms
proof (induction toks arbitrary: s)
  case Nil
  then show ?case by simp
next
  case (Cons tok toks)
  obtain k s1 where a: "add_symbol s v tok = Inr (k, s1)" "owns n m0 xs0 s1 v"
    "take n s1 = take n s"
    using owns_add_symbol [OF Cons.prems] by blast
  from Cons.IH [OF a(2)] a show ?case by auto
qed

lemma owns_length: "owns n m0 xs0 s v \<Longrightarrow> n < length s"
  by (auto simp: owns_def)

lemma owns_contents:
  "owns n m0 xs0 s v \<Longrightarrow> \<exists>m xs. vocab_contents s v = Some (m0 @ m, xs0 @ xs)"
  by (auto simp: owns_def vocab_contents_def deref_def)

lemma prefix_contents:
  assumes "wf_vocab s v" and "take (length s) s1 = s"
  shows "vocab_contents s1 v = vocab_contents s v"
proof -
  from assms(1) obtain d l t u m xs where v: "v < length s" "s ! v = VocabObj d l t u"
    "d < length s" "s ! d = DictObj m" "l < length s" "s ! l = ListObj xs"
    by (rule wf_vocabE)
  have len: "length s \<le> length s1"
    using assms(2) by (metis length_take min.cobounded1)
  have nth: "s1 ! a = s ! a" if "a < length s" for a
    using that assms(2) by (metis nth_take)
  from v len show ?thesis
    by (simp add: vocab_contents_def deref_def nth)
qed

text \<open>
  C7. \<open>prepare_ext_vocab\<close> on a well-formed source vocabulary returns a new vocabulary
  (another address) that is a deep copy: its dictionary and list are new objects whose
  contents extend those of the source vocabulary by the out-of-vocabulary tokens. Every
  object that was in the store before the call is unchanged afterwards, and stays
  unchanged after any sequence of \<open>add_symbol\<close> calls on the returned vocabulary; so the
  symbol-to-index and index-to-symbol mappings of the source vocabulary are the same as
  before.
\<close>

theorem oov_vocab_isolated:
  assumes wf: "wf_vocab s src_vocab"
  shows "\<exists>oov_dict token_matrix s1 m xs m1 xs1.
           prepare_ext_vocab s node_attributes src_vocab = Inr (oov_dict, token_matrix, s1) \<and>
           oov_dict \<noteq> src_vocab \<and>
           take (length s) s1 = s \<and>
           vocab_contents s src_vocab = Some (m, xs) \<and>
           vocab_contents s1 src_vocab = Some (m, xs) \<and>
           vocab_contents s1 oov_dict = Some (m @ m1, xs @ xs1) \<and>
           (\<forall>toks. \<exists>s2. add_symbols s1 oov_dict toks = Inr s2 \<and>
                         take (length s) s2 = s \<and>
                         vocab_contents s2 src_vocab = Some (m, xs))"
proof -
  from wf obtain oov s0 m xs where dc: "deepcopy s src_vocab = Inr (oov, s0)"
    "take (length s) s0 = s" "vocab_contents s src_vocab = Some (m, xs)"
    "owns (length s) m xs s0 oov" "oov \<noteq> src_vocab"
    by (rule deepcopy_owns)
  from owns_ext_vocab_loop [OF dc(4), of node_attributes "[]"] obtain tm s1 where
    lp: "ext_vocab_loop s0 oov node_attributes [] = Inr (tm, s1)"
    "owns (length s) m xs s1 oov" "take (length s) s1 = take (length s) s0"
    by blast
  have run: "prepare_ext_vocab s node_attributes src_vocab = Inr (oov, tm, s1)"
    by (simp add: prepare_ext_vocab_def dc(1) lp(1))
  have frame: "take (length s) s1 = s"
    using lp(3) dc(2) by simp
  have base: "vocab_contents s1 src_vocab = Some (m, xs)"
    using prefix_contents [OF wf frame] dc(3) by simp
  obtain m1 xs1 where copy: "vocab_contents s1 oov = Some (m @ m1, xs @ xs1)"
    using owns_contents [OF lp(2)] by blast
  have later: "\<exists>s2. add_symbols s1 oov toks = Inr s2 \<and> take (length s) s2 = s \<and>
      vocab_contents s2 src_vocab = Some (m, xs)" for toks
  proof -
    from owns_add_symbols [OF lp(2), of toks] obtain s2 where
      a: "add_symbols s1 oov toks = Inr s2" "take (length s) s2 = take (length s) s1"
      by blast
    then have "take (length s) s2 = s" using frame by simp
    with a prefix_contents [OF wf this] dc(3) show ?thesis by simp
  qed
  from run dc(5) frame dc(3) base copy later show ?thesis
    by blast
qed


text \<open>
  The theorem at a store with one vocabulary of two symbols and three nodes: a known
  token, an unknown token that is added, and an unknown token of a node of another type.
\<close>

theorem oov_vocab_isolated_witness:
  "wf_vocab example_store 2
   \<and> prepare_ext_vocab example_store example_nodes 2 =
       Inr (5, [1, 2, 0],
            example_store @
              [DictObj [(''<unk>'', 0), (''city'', 1), (''boston'', 2)],
               ListObj [''<unk>'', ''city'', ''boston''],
               VocabObj 3 4 ''<unk>'' 0])
   \<and> vocab_contents
         (example_store @
            [DictObj [(''<unk>'', 0), (''city'', 1), (''boston'', 2)],
             ListObj [''<unk>'', ''city'', ''boston''],
             VocabObj 3 4 ''<unk>'' 0]) 2 =
       Some ([(''<unk>'', 0), (''city'', 1)], [''<unk>'', ''city''])
   \<and> (\<exists>s2. add_symbols
               (example_store @
                  [DictObj [(''<unk>'', 0), (''city'', 1), (''boston'', 2)],
                   ListObj [''<unk>'', ''city'', ''boston''],
                   VocabObj 3 4 ''<unk>'' 0]) 5 [''austin'', ''city''] = Inr s2 \<and>
             take 3 s2 = example_store \<and>
             vocab_contents s2 2 = Some ([(''<unk>'', 0), (''city'', 1)], [''<unk>'', ''city'']))"
proof -
  let ?s1 = "example_store @
              [DictObj [(''<unk>'', 0), (''city'', 1), (''boston'', 2)],
               ListObj [''<unk>'', ''city'', ''boston''],
               VocabObj 3 4 ''<unk>'' 0]"
  have wf: "wf_vocab example_store 2"
    by (simp add: wf_vocab_def deref_def example_store_def)
  have run: "prepare_ext_vocab example_store example_nodes 2 = Inr (5, [1, 2, 0], ?s1)"
    by (simp add: prepare_ext_vocab_def deepcopy_def deref_def example_store_def
          example_nodes_def get_symbol_idx_def unk_token_def add_symbol_def Let_def)
  have base: "vocab_contents example_store 2 =
      Some ([(''<unk>'', 0), (''city'', 1)], [''<unk>'', ''city''])"
    and len: "length example_store = 3"
    by (simp_all add: vocab_contents_def deref_def example_store_def)
  from oov_vocab_isolated [OF wf, of example_nodes] obtain oov tm s1 m xs where
    r: "prepare_ext_vocab example_store example_nodes 2 = Inr (oov, tm, s1)"
    and b: "vocab_contents example_store 2 = Some (m, xs)"
      "vocab_contents s1 2 = Some (m, xs)"
    and l: "\<And>toks. \<exists>s2. add_symbols s1 oov toks = Inr s2 \<and>
          take (length example_store) s2 = example_store \<and>
          vocab_contents s2 2 = Some (m, xs)"
    by blast
  from r run have eq: "oov = 5" "s1 = ?s1" by simp_all
  from b base have mx: "m = [(''<unk>'', 0), (''city'', 1)]" "xs = [''<unk>'', ''city'']"
    by simp_all
  from b(2) eq mx have c: "vocab_contents ?s1 2 =
      Some ([(''<unk>'', 0), (''city'', 1)], [''<unk>'', ''city''])"
    by simp
  from l [of "[''austin'', ''city'']"] eq mx len
  have a: "\<exists>s2. add_symbols ?s1 5 [''austin'', ''city''] = Inr s2 \<and>
      take 3 s2 = example_store \<and>
      vocab_contents s2 2 = Some ([(''<unk>'', 0), (''city'', 1)], [''<unk>'', ''city''])"
    by simp
  from wf run c a show ?thesis
    by blast
qed

section \<open>Forward and backward edge weights\<close>

lemma upt_2: "[0..<2] = [0, 1]"
  by (simp add: upt_rec)

lemmas bi_defs = BiSepGCNLayerConv_forward_def BiSep_forward_direction_def
  BiSep_backward_direction_def BiFuseGCNLayerConv_forward_def BiFuse_forward_direction_def
  BiFuse_backward_direction_def weight_pair_def set_edata_u_mul_e_def

lemmas bug_input_defs = plain_bisep_def plain_bifuse_def bisep_layer.truncate_def
  edge_graph_def

text \<open>
  C1. The claim is that in both bidirectional layers the backward aggregation multiplies
  every message by \<open>reverse_edge_weight\<close> only, on both code paths. The code does not
  do so on the aggregate-first path. On the graph \<open>0 \<rightarrow> 1\<close> with all features 1,
  \<open>edge_weight = [2]\<close> and \<open>reverse_edge_weight = [3]\<close>, the backward output of the
  \<open>bi_sep\<close> layer at node 0 is 2, the forward edge weight, where the multiply-first path
  of the same layer gives 3. In the \<open>bi_fuse\<close> layer the aggregate-first path tests
  \<open>edge_weight\<close>: without it, \<open>reverse_edge_weight = [3]\<close> is ignored and the backward
  output is 1, where the multiply-first path gives 3.
\<close>

theorem backward_uses_forward_edge_weight:
  "BiSepGCNLayerConv_forward plain_bisep edge_graph ([[1], [1]], [[1], [1]]) NoWeight
     (Some [2]) (Some [3]) = Inr ([[0], [2]], [[2], [0]])
   \<and> BiSepGCNLayerConv_forward (plain_bisep\<lparr>in_feats := 2\<rparr>) edge_graph
       ([[1], [1]], [[1], [1]]) NoWeight (Some [2]) (Some [3]) = Inr ([[0], [2]], [[3], [0]])
   \<and> BiFuse_backward_direction plain_bifuse (reverse edge_graph) [[1], [1]] None
       None (Some [3]) = Inr [[1], [0]]
   \<and> BiFuse_backward_direction (plain_bifuse\<lparr>in_feats := 2\<rparr>) (reverse edge_graph)
       [[1], [1]] None None (Some [3]) = Inr [[3], [0]]"
  by (simp add: bi_defs bug_input_defs tensor_defs graph_defs upt_2 enumerate_eq_zip upt_rec
        Let_def)

text \<open>
  C3. The claim is that the \<open>bi_sep\<close> layer returns the pair of the undirected results,
  forward on the graph with \<open>edge_weight\<close> and backward on the reversed graph with
  \<open>reverse_edge_weight\<close>. At the input of C1 the layer returns 2 at node 0 of the backward
  result, the pair of undirected results has 3 there.
\<close>

theorem bisep_differs_from_undirected_pair:
  "BiSepGCNLayerConv_forward plain_bisep edge_graph ([[1], [1]], [[1], [1]]) NoWeight
     (Some [2]) (Some [3]) = Inr ([[0], [2]], [[2], [0]])
   \<and> bi_sep_spec plain_bisep edge_graph ([[1], [1]], [[1], [1]]) (Some [2]) (Some [3]) =
       Inr ([[0], [2]], [[3], [0]])
   \<and> BiSepGCNLayerConv_forward plain_bisep edge_graph ([[1], [1]], [[1], [1]]) NoWeight
       (Some [2]) (Some [3]) \<noteq>
     bi_sep_spec plain_bisep edge_graph ([[1], [1]], [[1], [1]]) (Some [2]) (Some [3])"
  by (simp add: bi_defs bug_input_defs bi_sep_spec_def forward_layer_def backward_layer_def
        UndirectedGCNLayerConv_forward_def tensor_defs graph_defs upt_2 enumerate_eq_zip
        upt_rec Let_def)

text \<open>
  Away from that branch the layer is the pair of the undirected results: on the
  multiply-first path, and whenever the two edge weights are equal (in particular when
  there are none).
\<close>

lemma forward_layer_sel:
  "in_feats (forward_layer self) = in_feats self"
  "out_feats (forward_layer self) = out_feats self"
  "norm_mode (forward_layer self) = norm_mode self"
  "activation (forward_layer self) = activation self"
  "weight (forward_layer self) = weight_fw self"
  "bias (forward_layer self) = bias_fw self"
  by (simp_all add: forward_layer_def)

lemma backward_layer_sel:
  "in_feats (backward_layer self) = in_feats self"
  "out_feats (backward_layer self) = out_feats self"
  "norm_mode (backward_layer self) = norm_mode self"
  "activation (backward_layer self) = activation self"
  "weight (backward_layer self) = weight_bw self"
  "bias (backward_layer self) = bias_bw self"
  by (simp_all add: backward_layer_def)

lemma truncate_sel:
  "in_feats (bisep_layer.truncate self) = in_feats self"
  "out_feats (bisep_layer.truncate self) = out_feats self"
  "norm_mode (bisep_layer.truncate self) = norm_mode self"
  "activation (bisep_layer.truncate self) = activation self"
  "weight_fw (bisep_layer.truncate self) = weight_fw self"
  "weight_bw (bisep_layer.truncate self) = weight_bw self"
  "bias_fw (bisep_layer.truncate self) = bias_fw self"
  "bias_bw (bisep_layer.truncate self) = bias_bw self"
  by (simp_all add: bisep_layer.truncate_def)

lemma BiSep_forward_direction_undirected:
  "BiSep_forward_direction self g f None ew =
   UndirectedGCNLayerConv_forward (forward_layer self) g f None ew None"
  unfolding BiSep_forward_direction_def UndirectedGCNLayerConv_forward_def forward_layer_sel
  by simp

lemma BiSep_backward_direction_undirected:
  assumes "in_feats self > out_feats self \<or> ew = rw"
  shows "BiSep_backward_direction self g f None ew rw =
         UndirectedGCNLayerConv_forward (backward_layer self) g f None rw None"
proof (cases "in_feats self > out_feats self")
  case True
  then show ?thesis
    unfolding BiSep_backward_direction_def UndirectedGCNLayerConv_forward_def
      backward_layer_sel
    by (cases rw) (simp_all add: Let_def)
next
  case False
  with assms have "ew = rw" by simp
  with False show ?thesis
    unfolding BiSep_backward_direction_def UndirectedGCNLayerConv_forward_def
      backward_layer_sel
    by (cases rw) (simp_all add: Let_def set_edata_u_mul_e_def)
qed

lemma bisep_is_undirected_pair:
  assumes "in_feats self > out_feats self \<or> ew = rw"
  shows "BiSepGCNLayerConv_forward self g feat NoWeight ew rw = bi_sep_spec self g feat ew rw"
  by (cases feat)
     (simp add: BiSepGCNLayerConv_forward_def bi_sep_spec_def weight_pair_def
        BiSep_forward_direction_undirected BiSep_backward_direction_undirected [OF assms]
      split: sum.splits)

text \<open>
  C4. The claim is that the \<open>bi_fuse\<close> layer returns the gated combination of the two
  outputs of the \<open>bi_sep\<close> computation with the same weights and biases on
  \<open>(feat, feat)\<close>. At the input of C1 the \<open>bi_fuse\<close> layer returns \<open>3/2\<close> at node 0 (its
  backward branch weights by \<open>reverse_edge_weight\<close>), the gated combination of the
  \<open>bi_sep\<close> outputs is 1 there.
\<close>

theorem bifuse_differs_from_fused_bisep:
  "BiFuseGCNLayerConv_forward plain_bifuse edge_graph [[1], [1]] NoWeight
     (Some [2]) (Some [3]) = Inr [[3 / 2], [1]]
   \<and> bi_fuse_spec plain_bifuse edge_graph [[1], [1]] (Some [2]) (Some [3]) = Inr [[1], [1]]
   \<and> BiFuseGCNLayerConv_forward plain_bifuse edge_graph [[1], [1]] NoWeight
       (Some [2]) (Some [3]) \<noteq>
     bi_fuse_spec plain_bifuse edge_graph [[1], [1]] (Some [2]) (Some [3])"
  by (simp add: bi_defs bug_input_defs bi_fuse_spec_def fuse_spec_def sigmoid_def cat_def
        Linear_def tmul_def tsub_def tadd_def tensor_defs graph_defs upt_2 enumerate_eq_zip
        upt_rec Let_def)


text \<open>
  On the multiply-first path, and whenever the two edge weights are equal (in particular
  when there are none), the \<open>bi_fuse\<close> layer is the gated combination of the \<open>bi_sep\<close>
  outputs.
\<close>

lemma BiFuse_forward_direction_BiSep:
  "BiFuse_forward_direction self g f w ew =
   BiSep_forward_direction (bisep_layer.truncate self) g f w ew"
  unfolding BiFuse_forward_direction_def BiSep_forward_direction_def truncate_sel
  by (rule refl)

lemma BiFuse_backward_direction_BiSep:
  assumes "in_feats self > out_feats self \<or> ew = rw"
  shows "BiFuse_backward_direction self g f w ew rw =
         BiSep_backward_direction (bisep_layer.truncate self) g f w ew rw"
proof (cases "in_feats self > out_feats self")
  case True
  show ?thesis
    unfolding BiFuse_backward_direction_def BiSep_backward_direction_def truncate_sel
    by (simp only: True if_True)
next
  case False
  with assms have eq: "ew = rw" by simp
  show ?thesis
    unfolding BiFuse_backward_direction_def BiSep_backward_direction_def truncate_sel eq
    by (rule refl)
qed

lemma bifuse_is_fused_bisep:
  assumes "in_feats self > out_feats self \<or> ew = rw"
  shows "BiFuseGCNLayerConv_forward self g feat NoWeight ew rw = bi_fuse_spec self g feat ew rw"
  by (simp add: BiFuseGCNLayerConv_forward_def bi_fuse_spec_def fuse_spec_def
        BiSepGCNLayerConv_forward_def weight_pair_def BiFuse_forward_direction_BiSep
        BiFuse_backward_direction_BiSep [OF assms] Let_def
      split: sum.splits)

end
